theory Spec2Isabelle
  imports Complex_Main
begin

section \<open>Python and host values\<close>

text \<open>
  The five utility classes are glue over the scripting interface of the host application
  (\<open>bpy\<close>), the Python standard library (\<open>subprocess\<close>, \<open>os\<close>) and a \<open>FilePath\<close> helper.
  Every function of the repository is embedded as a function over an explicit world state;
  every call into the host is a field of the record \<open>host\<close>, so that a theorem about a
  repository function holds for whatever the host does in that call.

  An exception is a value of type \<open>exn\<close>. A command returns its outcome together with the
  state it leaves behind, also when it raises: what was changed before the exception
  stays changed.
\<close>

datatype exn =
    KeyError
  | IndexError
  | AttributeError
  | TypeError
  | ReferenceError
  | RecursionError
  | FileNotFoundError
  | FileExistsError
  | RuntimeError string

text \<open>
  The world: the files on disk (path to content) and the state of the host, whose type
  is left open.
\<close>

record 'b world =
  files :: "string \<rightharpoonup> string"
  blend :: 'b

type_synonym ('b, 'a) hostM = "'b world \<Rightarrow> (exn + 'a) \<times> 'b world"

text \<open>Attribute reads and queries may raise but leave the world as it is.\<close>

type_synonym ('b, 'a) readM = "'b world \<Rightarrow> exn + 'a"

definition returnM :: "'a \<Rightarrow> ('b, 'a) hostM" where
  "returnM x w = (Inr x, w)"

definition raiseM :: "exn \<Rightarrow> ('b, 'a) hostM" where
  "raiseM e w = (Inl e, w)"

definition bindM :: "('b, 'a) hostM \<Rightarrow> ('a \<Rightarrow> ('b, 'c) hostM) \<Rightarrow> ('b, 'c) hostM" where
  "bindM m f w = (case m w of (Inl e, w') \<Rightarrow> (Inl e, w') | (Inr x, w') \<Rightarrow> f x w')"

definition thenM :: "('b, 'a) hostM \<Rightarrow> ('b, 'c) hostM \<Rightarrow> ('b, 'c) hostM" where
  "thenM m n = bindM m (\<lambda>_. n)"

definition getM :: "('b, 'a) readM \<Rightarrow> ('b, 'a) hostM" where
  "getM r w = (r w, w)"

text \<open>\<open>for x in xs: body(x)\<close>, stopping at the first exception.\<close>

fun forM :: "'a list \<Rightarrow> ('a \<Rightarrow> ('b, unit) hostM) \<Rightarrow> ('b, unit) hostM" where
  "forM [] f = returnM ()"
| "forM (x # xs) f = thenM (f x) (forM xs f)"

text \<open>\<open>[x for x in xs if test(x)]\<close> where the test reads the host.\<close>

fun filterR :: "('a \<Rightarrow> ('b, bool) readM) \<Rightarrow> 'a list \<Rightarrow> ('b, 'a list) readM" where
  "filterR t [] w = Inr []"
| "filterR t (x # xs) w =
     (case t x w of
        Inl e \<Rightarrow> Inl e
      | Inr b \<Rightarrow> (case filterR t xs w of
                    Inl e \<Rightarrow> Inl e
                  | Inr ys \<Rightarrow> Inr (if b then x # ys else ys)))"

text \<open>
  Python truthiness of an optional string argument: \<open>None\<close> and the empty string are
  both false.
\<close>

fun truthy :: "string option \<Rightarrow> bool" where
  "truthy None = False"
| "truthy (Some s) = (s \<noteq> [])"

section \<open>The host interface\<close>

text \<open>
  \<open>math.radians(x)\<close> is kept as a term: the floating-point conversion is the host
  language's own.
\<close>

datatype angle = radians real

text \<open>Handles to host-owned entities.\<close>

type_synonym obj = nat
type_synonym coll = nat
type_synonym ident = nat
type_synonym ntree = nat
type_synonym node = nat
type_synonym socket = nat
type_synonym fslot = nat

text \<open>
  One field per host call made by the functions embedded below, named after the
  Python expression it stands for.
\<close>

record 'b host =
  subprocess_run :: "string list \<Rightarrow> ('b, unit) hostM"
  data_collections :: "('b, coll list) readM"
  data_collections_getitem :: "string \<Rightarrow> ('b, coll) readM"
  data_collections_new :: "string \<Rightarrow> ('b, coll) hostM"
  data_cameras_new :: "string \<Rightarrow> ('b, ident) hostM"
  data_objects_new :: "string \<Rightarrow> ident \<Rightarrow> ('b, obj) hostM"
  data_objects_remove :: "obj \<Rightarrow> ('b, unit) hostM"
  data_meshes_remove :: "ident \<Rightarrow> ('b, unit) hostM"
  data_materials :: "('b, ident list) readM"
  data_materials_remove :: "ident \<Rightarrow> ('b, unit) hostM"
  data_images :: "('b, ident list) readM"
  data_images_remove :: "ident \<Rightarrow> ('b, unit) hostM"
  data_images_load :: "string \<Rightarrow> bool \<Rightarrow> ('b, ident) hostM"
  scene_camera :: "('b, obj option) readM"
  scene_set_camera :: "obj \<Rightarrow> ('b, unit) hostM"
  scene_collection_children_link :: "coll \<Rightarrow> ('b, unit) hostM"
  scene_frame_set :: "int \<Rightarrow> ('b, unit) hostM"
  scene_set_use_nodes :: "bool \<Rightarrow> ('b, unit) hostM"
  scene_node_tree :: "('b, ntree) readM"
  scene_objects :: "('b, obj list) readM"
  active_layer_collection :: "('b, coll) readM"
  view_layer_set_active :: "obj \<Rightarrow> ('b, unit) hostM"
  ops_object_select_all :: "string \<Rightarrow> ('b, unit) hostM"
  ops_object_join :: "('b, unit) hostM"
  ops_render_render :: "bool \<Rightarrow> ('b, unit) hostM"
  collection_name :: "coll \<Rightarrow> ('b, string) readM"
  collection_objects :: "coll \<Rightarrow> ('b, obj list) readM"
  collection_objects_link :: "coll \<Rightarrow> obj \<Rightarrow> ('b, unit) hostM"
  object_name :: "obj \<Rightarrow> ('b, string) readM"
  object_type :: "obj \<Rightarrow> ('b, string) readM"
  object_data :: "obj \<Rightarrow> ('b, ident) readM"
  object_parent :: "obj \<Rightarrow> ('b, obj option) readM"
  object_children :: "obj \<Rightarrow> ('b, obj list) readM"
  object_select_set :: "obj \<Rightarrow> bool \<Rightarrow> ('b, unit) hostM"
  object_set_location :: "obj \<Rightarrow> real list \<Rightarrow> ('b, unit) hostM"
  object_set_rotation_euler :: "obj \<Rightarrow> angle list \<Rightarrow> ('b, unit) hostM"
  id_users :: "ident \<Rightarrow> ('b, nat) readM"
  nodes_new :: "ntree \<Rightarrow> string \<Rightarrow> ('b, node) hostM"
  nodes_list :: "ntree \<Rightarrow> ('b, node list) readM"
  nodes_remove :: "ntree \<Rightarrow> node \<Rightarrow> ('b, unit) hostM"
  node_outputs_getitem :: "node \<Rightarrow> int \<Rightarrow> ('b, socket) readM"
  node_inputs_getitem :: "node \<Rightarrow> int \<Rightarrow> ('b, socket) readM"
  links_new :: "ntree \<Rightarrow> socket \<Rightarrow> socket \<Rightarrow> ('b, unit) hostM"
  node_set_image :: "node \<Rightarrow> ident \<Rightarrow> ('b, unit) hostM"
  node_set_base_path :: "node \<Rightarrow> string \<Rightarrow> ('b, unit) hostM"
  node_file_slots :: "node \<Rightarrow> ('b, fslot list) readM"
  slot_set_path :: "fslot \<Rightarrow> string \<Rightarrow> ('b, unit) hostM"
  node_set_file_format :: "node \<Rightarrow> string \<Rightarrow> ('b, unit) hostM"
  node_set_color_mode :: "node \<Rightarrow> string \<Rightarrow> ('b, unit) hostM"

section \<open>The file system and \<open>FilePath\<close>\<close>

text \<open>
  \<open>os.path.exists\<close>, \<open>os.remove\<close> and \<open>os.rename\<close> on the \<open>files\<close> of the world.
  \<open>os.rename\<close> raises when the source is missing and, as on the platform of the
  hardcoded install path, when the destination exists.
\<close>

definition os_path_exists :: "string \<Rightarrow> ('b, bool) readM" where
  "os_path_exists p w = Inr (files w p \<noteq> None)"

definition os_remove :: "string \<Rightarrow> ('b, unit) hostM" where
  "os_remove p w =
     (if files w p = None then (Inl FileNotFoundError, w)
      else (Inr (), w\<lparr>files := (files w)(p := None)\<rparr>))"

definition os_rename :: "string \<Rightarrow> string \<Rightarrow> ('b, unit) hostM" where
  "os_rename src dst w =
     (case files w src of
        None \<Rightarrow> (Inl FileNotFoundError, w)
      | Some c \<Rightarrow>
          if src = dst then (Inr (), w)
          else if files w dst \<noteq> None then (Inl FileExistsError, w)
          else (Inr (), w\<lparr>files := (files w)(src := None, dst \<mapsto> c)\<rparr>))"

text \<open>
  Modelled from the spec: the class \<open>FilePath\<close> (\<open>Utilities.FileObjects.FilePath\<close>) is
  imported by \<open>CompositorUtilities\<close> but is not among the sources. The functions below use
  its attributes \<open>fileName\<close> and \<open>fileExt\<close> and its methods \<open>getFullPath\<close>, \<open>exists\<close> and
  \<open>removeFile\<close>. A file path is a directory, a name and an extension;
  \<open>getFullPath(path_only=True)\<close> is the directory, \<open>getFullPath()\<close> is the full
  destination path \<open>d/n.e\<close>, \<open>exists\<close> tests for a file at the full path and
  \<open>removeFile\<close> removes it. The constructor, which parses a string, is a parameter
  (\<open>mk path has_name\<close>) of the functions that call it.
\<close>

record FilePath =
  directory :: string
  fileName :: string
  fileExt :: string

definition getFullPath :: "FilePath \<Rightarrow> string" where
  "getFullPath fp = directory fp @ ''/'' @ fileName fp @ ''.'' @ fileExt fp"

definition getFullPath_path_only :: "FilePath \<Rightarrow> string" where
  "getFullPath_path_only fp = directory fp"

definition FilePath_exists :: "FilePath \<Rightarrow> ('b, bool) readM" where
  "FilePath_exists fp = os_path_exists (getFullPath fp)"

definition removeFile :: "FilePath \<Rightarrow> ('b, unit) hostM" where
  "removeFile fp = os_remove (getFullPath fp)"

section \<open>BatchUtilities\<close>



section \<open>DataUtilities\<close>

text \<open>
  The loop over the collection's objects runs over the objects the collection holds when
  the loop starts. The Python set \<open>meshes\<close> is a list without duplicates.
\<close>

fun purge_objects :: "'b host \<Rightarrow> obj list \<Rightarrow> ident list \<Rightarrow> ('b, ident list) hostM" where
  "purge_objects api [] meshes = returnM meshes"
| "purge_objects api (ob # objs) meshes =
     bindM (getM (object_type api ob)) (\<lambda>t.
     bindM (if t = ''MESH''
            then bindM (getM (object_data api ob)) (\<lambda>d.
                 returnM (if d \<in> set meshes then meshes else meshes @ [d]))
            else returnM meshes) (\<lambda>meshes'.
     thenM (data_objects_remove api ob)
           (purge_objects api objs meshes')))"

definition orphans :: "'b host \<Rightarrow> ident list \<Rightarrow> ('b, ident list) readM" where
  "orphans api ids =
     filterR (\<lambda>i w. case id_users api i w of Inl e \<Rightarrow> Inl e | Inr n \<Rightarrow> Inr (n = 0)) ids"

text \<open>Lines 32 to 36, 38 to 41 and 43 to 46: the three removals of orphans.\<close>

definition purge_meshes :: "'b host \<Rightarrow> ident list \<Rightarrow> ('b, unit) hostM" where
  "purge_meshes api meshes =
     bindM (getM (orphans api meshes)) (\<lambda>ms. forM ms (data_meshes_remove api))"

definition purge_materials :: "'b host \<Rightarrow> ('b, unit) hostM" where
  "purge_materials api =
     bindM (getM (data_materials api)) (\<lambda>all.
     bindM (getM (orphans api all)) (\<lambda>ms. forM ms (data_materials_remove api)))"

definition purge_images :: "'b host \<Rightarrow> ('b, unit) hostM" where
  "purge_images api =
     bindM (getM (data_images api)) (\<lambda>all.
     bindM (getM (orphans api all)) (\<lambda>is. forM is (data_images_remove api)))"

definition purge_data :: "'b host \<Rightarrow> ident list \<Rightarrow> bool \<Rightarrow> bool \<Rightarrow> bool \<Rightarrow> ('b, unit) hostM" where
  "purge_data api meshes remove_meshes remove_materials remove_images =
     thenM (if remove_meshes then purge_meshes api meshes else returnM ())
    (thenM (if remove_materials then purge_materials api else returnM ())
           (if remove_images then purge_images api else returnM ()))"

definition purgeMeshObjectsFromCollection ::
  "'b host \<Rightarrow> string \<Rightarrow> bool \<Rightarrow> bool \<Rightarrow> bool \<Rightarrow> ('b, unit) hostM" where
  "purgeMeshObjectsFromCollection api coll_name remove_meshes remove_materials remove_images =
     bindM (getM (data_collections_getitem api coll_name)) (\<lambda>c.
     bindM (getM (collection_objects api c)) (\<lambda>objects.
     bindM (purge_objects api objects []) (\<lambda>meshes.
     purge_data api meshes remove_meshes remove_materials remove_images)))"

section \<open>SceneUtilities\<close>

text \<open>
  \<open>print\<close> writes to standard output only; the calls are left out, together with the
  attribute reads that only format their messages. A handle to a collection or an object
  counts as true in a test; only \<open>None\<close> counts as false, so the test of line 58 of
  \<open>createCamera\<close> always passes.
\<close>

text \<open>Lines 18 to 31 of \<open>createCamera\<close>: the collection the camera goes to.\<close>

definition camCollection_of :: "'b host \<Rightarrow> string option \<Rightarrow> ('b, coll) hostM" where
  "camCollection_of api collection =
     (if truthy collection
      then bindM (getM (data_collections api)) (\<lambda>all.
           bindM (getM (filterR (\<lambda>x w. case collection_name api x w of
                                           Inl e \<Rightarrow> Inl e
                                         | Inr n \<Rightarrow> Inr (the collection = n)) all)) (\<lambda>camCollection.
           case camCollection of
             [] \<Rightarrow> bindM (data_collections_new api (the collection)) (\<lambda>c.
                   thenM (scene_collection_children_link api c) (returnM c))
           | c # _ \<Rightarrow> returnM c))
      else getM (active_layer_collection api))"

text \<open>Lines 39 to 44: the loop that returns at the first object of type \<open>CAMERA\<close>.\<close>

fun camera_exists :: "'b host \<Rightarrow> obj list \<Rightarrow> ('b, bool) readM" where
  "camera_exists api [] w = Inr False"
| "camera_exists api (ob # objs) w =
     (case object_type api ob w of
        Inl e \<Rightarrow> Inl e
      | Inr t \<Rightarrow> if t = ''CAMERA'' then Inr True else camera_exists api objs w)"

definition createCamera ::
  "'b host \<Rightarrow> string \<Rightarrow> string option \<Rightarrow> real list \<Rightarrow> real list \<Rightarrow> bool \<Rightarrow> bool
     \<Rightarrow> ('b, obj option) hostM" where
  "createCamera api name collection location rotation create_if_camera_exists set_as_active =
     bindM (camCollection_of api collection) (\<lambda>camCollection.
     bindM (getM (collection_objects api camCollection)) (\<lambda>objects.
     bindM (if \<not> create_if_camera_exists then getM (camera_exists api objects)
            else returnM False) (\<lambda>found.
     if found then returnM None
     else bindM (data_cameras_new api name) (\<lambda>cam.
          bindM (data_objects_new api name cam) (\<lambda>camera.
          thenM (object_set_location api camera location)
         (thenM (object_set_rotation_euler api camera (map radians rotation))
         (thenM (collection_objects_link api camCollection camera)
         (thenM (if set_as_active then scene_set_camera api camera else returnM ())
                (returnM (Some camera))))))))))"

text \<open>
  \<open>selectChildren\<close> calls itself once per level of the object hierarchy. Python bounds the
  depth of the call stack and raises \<open>RecursionError\<close> beyond it; the first argument is the
  number of frames left.
\<close>

fun selectChildren :: "nat \<Rightarrow> 'b host \<Rightarrow> obj \<Rightarrow> bool \<Rightarrow> bool \<Rightarrow> ('b, unit) hostM"
  and selectChildren_loop :: "nat \<Rightarrow> 'b host \<Rightarrow> obj list \<Rightarrow> bool \<Rightarrow> ('b, unit) hostM" where
  "selectChildren 0 api parent recursive select_parent = raiseM RecursionError"
| "selectChildren (Suc d) api parent recursive select_parent =
     thenM (if select_parent then object_select_set api parent True else returnM ())
           (bindM (getM (object_children api parent)) (\<lambda>children.
            selectChildren_loop d api children recursive))"
| "selectChildren_loop d api [] recursive = returnM ()"
| "selectChildren_loop d api (child # children) recursive =
     thenM (object_select_set api child True)
    (thenM (if recursive then selectChildren d api child True False else returnM ())
           (selectChildren_loop d api children recursive))"

text \<open>Lines 176 to 185 of \<open>joinObjects\<close>: the first mesh under the active parent.\<close>

fun set_merge_context :: "'b host \<Rightarrow> obj \<Rightarrow> obj list \<Rightarrow> ('b, unit) hostM" where
  "set_merge_context api active_parent [] = returnM ()"
| "set_merge_context api active_parent (mesh # sceneMeshes) =
     bindM (getM (object_name api mesh)) (\<lambda>mesh_name.
     bindM (getM (object_name api active_parent)) (\<lambda>parent_name.
     if mesh_name = parent_name then view_layer_set_active api mesh
     else bindM (getM (object_parent api mesh)) (\<lambda>mesh_parent.
          case mesh_parent of
            None \<Rightarrow> set_merge_context api active_parent sceneMeshes
          | Some p \<Rightarrow>
              bindM (getM (object_name api active_parent)) (\<lambda>parent_name'.
              bindM (getM (object_name api p)) (\<lambda>p_name.
              if parent_name' = p_name then view_layer_set_active api mesh
              else set_merge_context api active_parent sceneMeshes)))))"

text \<open>Lines 164 to 188: everything before the cleanup of empties.\<close>

definition join_selected :: "nat \<Rightarrow> 'b host \<Rightarrow> obj \<Rightarrow> obj \<Rightarrow> ('b, unit) hostM" where
  "join_selected depth api active_parent secondary_parent =
     thenM (ops_object_select_all api ''DESELECT'')
    (thenM (selectChildren depth api active_parent True True)
    (thenM (selectChildren depth api secondary_parent True True)
    (bindM (getM (scene_objects api)) (\<lambda>all.
     bindM (getM (filterR (\<lambda>m w. case object_type api m w of
                                     Inl e \<Rightarrow> Inl e
                                   | Inr t \<Rightarrow> Inr (t = ''MESH'')) all)) (\<lambda>sceneMeshes.
     thenM (set_merge_context api active_parent sceneMeshes)
    (thenM (ops_object_join api)
           (ops_object_select_all api ''DESELECT'')))))))"

text \<open>\<open>try: ... except ReferenceError: pass\<close>\<close>

definition except_ReferenceError :: "('b, unit) hostM \<Rightarrow> ('b, unit) hostM" where
  "except_ReferenceError m w =
     (case m w of
        (Inl ReferenceError, w') \<Rightarrow> (Inr (), w')
      | r \<Rightarrow> r)"

definition joinObjects :: "nat \<Rightarrow> 'b host \<Rightarrow> obj \<Rightarrow> obj \<Rightarrow> bool \<Rightarrow> ('b, unit) hostM" where
  "joinObjects depth api active_parent secondary_parent cleanup_empties =
     thenM (join_selected depth api active_parent secondary_parent)
           (if cleanup_empties
            then except_ReferenceError (data_objects_remove api secondary_parent)
            else returnM ())"

section \<open>CompositorUtilities\<close>

definition initCompositor :: "'b host \<Rightarrow> string \<Rightarrow> ('b, ntree \<times> node) hostM" where
  "initCompositor api output_node_type =
     thenM (scene_set_use_nodes api True)
    (bindM (getM (scene_node_tree api)) (\<lambda>nodeTree.
     bindM (nodes_new api nodeTree output_node_type) (\<lambda>outputNode.
     returnM (nodeTree, outputNode))))"

text \<open>Lines 37 to 41 of \<open>renderComposition\<close>.\<close>

definition ensure_camera :: "'b host \<Rightarrow> ('b, unit) hostM" where
  "ensure_camera api =
     bindM (getM (scene_camera api)) (\<lambda>camera.
     if camera = None
     then bindM (createCamera api ''RenderCam'' None [0, 0, 0] [0, 0, 0] False True)
                (\<lambda>_. returnM ())
     else returnM ())"

definition renderComposition :: "'b host \<Rightarrow> ntree \<Rightarrow> bool \<Rightarrow> int \<Rightarrow> ('b, unit) hostM" where
  "renderComposition api node_tree do_cleanup frame =
     thenM (ensure_camera api)
    (thenM (scene_frame_set api frame)
    (thenM (ops_render_render api True)
           (if do_cleanup
            then bindM (getM (nodes_list api node_tree)) (\<lambda>nodes.
                 forM nodes (nodes_remove api node_tree))
            else returnM ())))"

definition tmpOutput :: "FilePath \<Rightarrow> string" where
  "tmpOutput file_path =
     getFullPath_path_only file_path @ ''/'' @ fileName file_path @ ''0000'' @ ''.''
       @ fileExt file_path"

definition removeBlenderFrameSuffix :: "FilePath \<Rightarrow> int \<Rightarrow> ('b, unit) hostM" where
  "removeBlenderFrameSuffix file_path frame =
     thenM (bindM (getM (FilePath_exists file_path)) (\<lambda>ex.
            if ex then removeFile file_path else returnM ()))
           (os_rename (tmpOutput file_path) (getFullPath file_path))"

text \<open>Lines 98 to 108 of \<open>extractAlphaToGreyscale\<close>: the destination.\<close>

definition dstTex_of ::
  "(string \<Rightarrow> bool \<Rightarrow> FilePath) \<Rightarrow> FilePath \<Rightarrow> string option \<Rightarrow> string option \<Rightarrow> FilePath" where
  "dstTex_of mk srcTex dst_img dst_suffix =
     (if truthy dst_img then mk (the dst_img) True
      else if truthy dst_suffix
      then (mk (getFullPath_path_only srcTex) False)
             \<lparr>fileName := fileName srcTex @ ''_'' @ the dst_suffix, fileExt := fileExt srcTex\<rparr>
      else mk (getFullPath srcTex) True)"

definition extractAlphaToGreyscale ::
  "'b host \<Rightarrow> (string \<Rightarrow> bool \<Rightarrow> FilePath) \<Rightarrow> string \<Rightarrow> string option \<Rightarrow> string option
     \<Rightarrow> string \<Rightarrow> bool \<Rightarrow> ('b, FilePath) hostM" where
  "extractAlphaToGreyscale api mk src_img dst_img dst_suffix format do_cleanup =
     bindM (initCompositor api ''CompositorNodeOutputFile'') (\<lambda>(nodeTree, outputNode).
     bindM (nodes_new api nodeTree ''CompositorNodeImage'') (\<lambda>inputNode.
     bindM (getM (node_outputs_getitem api inputNode 1)) (\<lambda>out1.
     bindM (getM (node_inputs_getitem api outputNode 0)) (\<lambda>in0.
     thenM (links_new api nodeTree out1 in0)
    (let srcTex = mk src_img True in
     bindM (data_images_load api (getFullPath srcTex) True) (\<lambda>img.
     thenM (node_set_image api inputNode img)
    (let dstTex = dstTex_of mk srcTex dst_img dst_suffix in
     thenM (node_set_base_path api outputNode (getFullPath_path_only dstTex))
    (bindM (getM (node_file_slots api outputNode)) (\<lambda>slots.
     thenM (forM slots (\<lambda>filePath. slot_set_path api filePath (fileName dstTex)))
    (thenM (node_set_file_format api outputNode format)
    (thenM (node_set_color_mode api outputNode ''BW'')
    (thenM (renderComposition api nodeTree do_cleanup 0)
    (thenM (removeBlenderFrameSuffix dstTex 0)
           (returnM dstTex))))))))))))))"

section \<open>MaterialUtilities\<close>

text \<open>
  \<open>getTextureFromSlot\<close> only reads the material it is given. A node has a name and
  inputs; an input has a name and links, each link given by the node it comes from.
  A material without a node tree has \<open>None\<close> there.
\<close>

datatype shader_node =
  ShaderNode (node_name: string) (node_inputs: "(string \<times> shader_node list) list")

datatype material = Material (node_tree: "shader_node list option")

text \<open>A key of a host collection: a name or a position.\<close>

datatype key = Name string | Index int

text \<open>\<open>nodes.get(name, None)\<close>\<close>

definition nodes_get :: "shader_node list \<Rightarrow> string \<Rightarrow> shader_node option" where
  "nodes_get nodes name = find (\<lambda>n. node_name n = name) nodes"

text \<open>
  \<open>inputs[k]\<close>: \<open>KeyError\<close> for a name that is not there, \<open>IndexError\<close> for a position out
  of range; a negative position counts from the end.
\<close>

definition inputs_getitem :: "(string \<times> 'a) list \<Rightarrow> key \<Rightarrow> exn + 'a" where
  "inputs_getitem inputs k =
     (case k of
        Name s \<Rightarrow> (case map_of inputs s of None \<Rightarrow> Inl KeyError | Some x \<Rightarrow> Inr x)
      | Index i \<Rightarrow>
          if 0 \<le> i \<and> i < int (length inputs) then Inr (snd (inputs ! nat i))
          else if i < 0 \<and> - i \<le> int (length inputs)
          then Inr (snd (inputs ! nat (int (length inputs) + i)))
          else Inl IndexError)"

text \<open>\<open>links[0].from_node\<close>\<close>

definition first_from_node :: "shader_node list \<Rightarrow> exn + shader_node" where
  "first_from_node links = (case links of [] \<Rightarrow> Inl IndexError | n # _ \<Rightarrow> Inr n)"

text \<open>
  The enumeration \<open>BlenderMaterialTextureSlots\<close> (\<open>Utilities.Enums.DCCs\<close>) is not among the
  sources: its member \<open>Normal\<close> and the \<open>value\<close> of a member are parameters.
\<close>

definition getTextureFromSlot ::
  "('s \<Rightarrow> key) \<Rightarrow> 's \<Rightarrow> material \<Rightarrow> 's \<Rightarrow> exn + shader_node option" where
  "getTextureFromSlot slot_value Normal material slot =
     (case node_tree material of
        None \<Rightarrow> Inl AttributeError
      | Some nodes \<Rightarrow>
          (case nodes_get nodes ''Principled BSDF'' of
             None \<Rightarrow> Inl AttributeError
           | Some shaderGraph \<Rightarrow>
               (case inputs_getitem (node_inputs shaderGraph) (slot_value slot) of
                  Inl e \<Rightarrow> Inl e
                | Inr links \<Rightarrow>
                    if links \<noteq> [] then
                      (if slot = Normal then
                         (case first_from_node links of
                            Inl e \<Rightarrow> Inl e
                          | Inr normalMap \<Rightarrow>
                              (case inputs_getitem (node_inputs normalMap) (Name ''Color'') of
                                 Inl e \<Rightarrow> Inl e
                               | Inr links' \<Rightarrow>
                                   (case first_from_node links' of
                                      Inl e \<Rightarrow> Inl e
                                    | Inr n \<Rightarrow> Inr (Some n))))
                       else (case first_from_node links of
                               Inl e \<Rightarrow> Inl e
                             | Inr n \<Rightarrow> Inr (Some n)))
                    else Inr None)))"

section \<open>A reference host\<close>

text \<open>
  A small in-memory host on which the functions above run on concrete scenes. It fixes one
  behaviour for each host call: data blocks are kept in lists, removing an object drops it
  from every collection and releases its data, joining merges the selected meshes into the
  active object and destroys them, and rendering records the scene camera it was invoked
  with and writes one file per output node, named by base path, slot path, the frame
  number padded to four digits, and the extension of the file format.
\<close>

record toy =
  t_launched :: "string list list"
  t_objects :: "(obj \<times> string \<times> string \<times> ident \<times> obj option) list"
  t_selected :: "obj list"
  t_active :: "obj option"
  t_collections :: "(coll \<times> string \<times> obj list) list"
  t_active_collection :: coll
  t_scene_children :: "coll list"
  t_cameras :: "(ident \<times> string) list"
  t_meshes :: "(ident \<times> nat) list"
  t_materials :: "(ident \<times> nat) list"
  t_images :: "(ident \<times> nat) list"
  t_camera :: "obj option"
  t_frame :: int
  t_renders :: "obj option list"
  t_next :: nat
  t_use_nodes :: bool
  t_nodes :: "(node \<times> string) list"
  t_links :: "(socket \<times> socket) list"
  t_node_image :: "(node \<times> ident) list"
  t_base_path :: string
  t_slot_path :: string
  t_file_format :: string
  t_color_mode :: string
  t_location :: "(obj \<times> real list) list"
  t_rotation :: "(obj \<times> angle list) list"

definition upd :: "(toy \<Rightarrow> toy) \<Rightarrow> (toy, unit) hostM" where
  "upd f w = (Inr (), w\<lparr>blend := f (blend w)\<rparr>)"

definition rd :: "(toy \<Rightarrow> 'a) \<Rightarrow> (toy, 'a) readM" where
  "rd f w = Inr (f (blend w))"

definition fresh :: "(nat \<Rightarrow> toy \<Rightarrow> toy) \<Rightarrow> (toy, nat) hostM" where
  "fresh f w =
     (let b = blend w; i = t_next b
      in (Inr i, w\<lparr>blend := (f i b)\<lparr>t_next := Suc i\<rparr>\<rparr>))"

definition obj_lookup :: "obj \<Rightarrow> ((string \<times> string \<times> ident \<times> obj option) \<Rightarrow> 'a) \<Rightarrow> (toy, 'a) readM" where
  "obj_lookup ob f w =
     (case map_of (t_objects (blend w)) ob of
        None \<Rightarrow> Inl ReferenceError
      | Some r \<Rightarrow> Inr (f r))"

definition coll_lookup :: "coll \<Rightarrow> ((string \<times> obj list) \<Rightarrow> 'a) \<Rightarrow> (toy, 'a) readM" where
  "coll_lookup c f w =
     (case map_of (t_collections (blend w)) c of
        None \<Rightarrow> Inl ReferenceError
      | Some r \<Rightarrow> Inr (f r))"

definition release :: "ident \<Rightarrow> (ident \<times> nat) list \<Rightarrow> (ident \<times> nat) list" where
  "release d = map (\<lambda>(i, n). if i = d then (i, n - 1) else (i, n))"

definition drop_object :: "obj \<Rightarrow> toy \<Rightarrow> toy" where
  "drop_object ob b =
     b\<lparr>t_objects := filter (\<lambda>r. fst r \<noteq> ob) (t_objects b),
       t_selected := filter (\<lambda>x. x \<noteq> ob) (t_selected b),
       t_active := (if t_active b = Some ob then None else t_active b),
       t_camera := (if t_camera b = Some ob then None else t_camera b),
       t_collections := map (\<lambda>(c, n, os). (c, n, filter (\<lambda>x. x \<noteq> ob) os)) (t_collections b),
       t_meshes := (case map_of (t_objects b) ob of
                      None \<Rightarrow> t_meshes b
                    | Some (_, _, d, _) \<Rightarrow> release d (t_meshes b))\<rparr>"

definition toy_objects_remove :: "obj \<Rightarrow> (toy, unit) hostM" where
  "toy_objects_remove ob w =
     (if map_of (t_objects (blend w)) ob = None then (Inl ReferenceError, w)
      else (Inr (), w\<lparr>blend := drop_object ob (blend w)\<rparr>))"

definition toy_join :: "(toy, unit) hostM" where
  "toy_join w =
     (let b = blend w in
      case t_active b of
        None \<Rightarrow> (Inl (RuntimeError ''no active object''), w)
      | Some a \<Rightarrow>
          (let merged = filter (\<lambda>ob. ob \<noteq> a \<and>
                                 (case map_of (t_objects b) ob of
                                    None \<Rightarrow> False
                                  | Some (_, ty, _, _) \<Rightarrow> ty = ''MESH'')) (t_selected b)
           in (Inr (), w\<lparr>blend := fold drop_object merged b\<rparr>)))"

definition digit :: "nat \<Rightarrow> char" where
  "digit d = char_of (48 + d mod 10)"

definition pad4 :: "int \<Rightarrow> string" where
  "pad4 f =
     (let n = nat f
      in [digit (n div 1000), digit (n div 100), digit (n div 10), digit n])"

definition extension :: "string \<Rightarrow> string" where
  "extension fmt =
     (if fmt = ''TARGA'' then ''tga'' else if fmt = ''PNG'' then ''png''
      else if fmt = ''JPEG'' then ''jpg'' else ''tif'')"

definition toy_render :: "bool \<Rightarrow> (toy, unit) hostM" where
  "toy_render write_still w =
     (let b = blend w;
          out = t_base_path b @ ''/'' @ t_slot_path b @ pad4 (t_frame b) @ ''.''
                  @ extension (t_file_format b)
      in (Inr (),
          w\<lparr>files := (if write_still \<and> (\<exists>n \<in> set (t_nodes b). snd n = ''CompositorNodeOutputFile'')
                       then (files w)(out \<mapsto> t_color_mode b) else files w),
            blend := b\<lparr>t_renders := t_renders b @ [t_camera b]\<rparr>\<rparr>))"

definition toy_socket :: "node \<Rightarrow> int \<Rightarrow> (toy, socket) readM" where
  "toy_socket n i w =
     (if map_of (t_nodes (blend w)) n = None then Inl ReferenceError
      else if 0 \<le> i \<and> i < 8 then Inr (16 * n + nat i) else Inl IndexError)"

definition remove_id :: "ident \<Rightarrow> (ident \<times> nat) list \<Rightarrow> (ident \<times> nat) list" where
  "remove_id d = filter (\<lambda>r. fst r \<noteq> d)"

definition toy_subprocess_run :: "string list \<Rightarrow> (toy, unit) hostM" where
  "toy_subprocess_run argv =
     upd (\<lambda>b. b\<lparr>t_launched := t_launched b @ [argv]\<rparr>)"

definition toy_data_collections :: "(toy, coll list) readM" where
  "toy_data_collections = rd (\<lambda>b. map fst (t_collections b))"

definition toy_data_collections_getitem :: "string \<Rightarrow> (toy, coll) readM" where
  "toy_data_collections_getitem name w =
     (case find (\<lambda>(c, n, os). n = name) (t_collections (blend w)) of
        None \<Rightarrow> Inl KeyError
      | Some (c, n, os) \<Rightarrow> Inr c)"

definition toy_data_collections_new :: "string \<Rightarrow> (toy, coll) hostM" where
  "toy_data_collections_new name =
     fresh (\<lambda>i b. b\<lparr>t_collections := t_collections b @ [(i, name, [])]\<rparr>)"

definition toy_data_cameras_new :: "string \<Rightarrow> (toy, ident) hostM" where
  "toy_data_cameras_new name =
     fresh (\<lambda>i b. b\<lparr>t_cameras := t_cameras b @ [(i, name)]\<rparr>)"

definition toy_data_objects_new :: "string \<Rightarrow> ident \<Rightarrow> (toy, obj) hostM" where
  "toy_data_objects_new name d =
     fresh (\<lambda>i b. b\<lparr>t_objects := t_objects b @
         [(i, name, if map_of (t_cameras b) d = None then ''MESH'' else ''CAMERA'', d, None)]\<rparr>)"

definition toy_data_meshes_remove :: "ident \<Rightarrow> (toy, unit) hostM" where
  "toy_data_meshes_remove d =
     upd (\<lambda>b. b\<lparr>t_meshes := remove_id d (t_meshes b)\<rparr>)"

definition toy_data_materials :: "(toy, ident list) readM" where
  "toy_data_materials = rd (\<lambda>b. map fst (t_materials b))"

definition toy_data_materials_remove :: "ident \<Rightarrow> (toy, unit) hostM" where
  "toy_data_materials_remove d =
     upd (\<lambda>b. b\<lparr>t_materials := remove_id d (t_materials b)\<rparr>)"

definition toy_data_images :: "(toy, ident list) readM" where
  "toy_data_images = rd (\<lambda>b. map fst (t_images b))"

definition toy_data_images_remove :: "ident \<Rightarrow> (toy, unit) hostM" where
  "toy_data_images_remove d =
     upd (\<lambda>b. b\<lparr>t_images := remove_id d (t_images b)\<rparr>)"

definition toy_data_images_load :: "string \<Rightarrow> bool \<Rightarrow> (toy, ident) hostM" where
  "toy_data_images_load path check_existing =
     fresh (\<lambda>i b. b\<lparr>t_images := t_images b @ [(i, 0)]\<rparr>)"

definition toy_scene_camera :: "(toy, obj option) readM" where
  "toy_scene_camera = rd t_camera"

definition toy_scene_set_camera :: "obj \<Rightarrow> (toy, unit) hostM" where
  "toy_scene_set_camera ob = upd (\<lambda>b. b\<lparr>t_camera := Some ob\<rparr>)"

definition toy_scene_collection_children_link :: "coll \<Rightarrow> (toy, unit) hostM" where
  "toy_scene_collection_children_link c =
     upd (\<lambda>b. b\<lparr>t_scene_children := t_scene_children b @ [c]\<rparr>)"

definition toy_scene_frame_set :: "int \<Rightarrow> (toy, unit) hostM" where
  "toy_scene_frame_set f = upd (\<lambda>b. b\<lparr>t_frame := f\<rparr>)"

definition toy_scene_set_use_nodes :: "bool \<Rightarrow> (toy, unit) hostM" where
  "toy_scene_set_use_nodes u = upd (\<lambda>b. b\<lparr>t_use_nodes := u\<rparr>)"

definition toy_scene_node_tree :: "(toy, ntree) readM" where
  "toy_scene_node_tree = rd (\<lambda>b. 0)"

definition toy_scene_objects :: "(toy, obj list) readM" where
  "toy_scene_objects = rd (\<lambda>b. map fst (t_objects b))"

definition toy_active_layer_collection :: "(toy, coll) readM" where
  "toy_active_layer_collection = rd t_active_collection"

definition toy_view_layer_set_active :: "obj \<Rightarrow> (toy, unit) hostM" where
  "toy_view_layer_set_active ob = upd (\<lambda>b. b\<lparr>t_active := Some ob\<rparr>)"

definition toy_ops_object_select_all :: "string \<Rightarrow> (toy, unit) hostM" where
  "toy_ops_object_select_all action = upd (\<lambda>b. b\<lparr>t_selected := []\<rparr>)"

definition toy_collection_name :: "coll \<Rightarrow> (toy, string) readM" where
  "toy_collection_name c = coll_lookup c fst"

definition toy_collection_objects :: "coll \<Rightarrow> (toy, obj list) readM" where
  "toy_collection_objects c = coll_lookup c snd"

definition toy_collection_objects_link :: "coll \<Rightarrow> obj \<Rightarrow> (toy, unit) hostM" where
  "toy_collection_objects_link c ob =
     upd (\<lambda>b. b\<lparr>t_collections :=
         map (\<lambda>(c', n, os). if c' = c then (c', n, os @ [ob]) else (c', n, os))
             (t_collections b)\<rparr>)"

definition toy_object_name :: "obj \<Rightarrow> (toy, string) readM" where
  "toy_object_name ob = obj_lookup ob fst"

definition toy_object_type :: "obj \<Rightarrow> (toy, string) readM" where
  "toy_object_type ob = obj_lookup ob (\<lambda>r. fst (snd r))"

definition toy_object_data :: "obj \<Rightarrow> (toy, ident) readM" where
  "toy_object_data ob = obj_lookup ob (\<lambda>r. fst (snd (snd r)))"

definition toy_object_parent :: "obj \<Rightarrow> (toy, obj option) readM" where
  "toy_object_parent ob = obj_lookup ob (\<lambda>r. snd (snd (snd r)))"

definition toy_object_children :: "obj \<Rightarrow> (toy, obj list) readM" where
  "toy_object_children ob w =
     Inr (map fst (filter (\<lambda>r. snd (snd (snd (snd r))) = Some ob) (t_objects (blend w))))"

definition toy_object_select_set :: "obj \<Rightarrow> bool \<Rightarrow> (toy, unit) hostM" where
  "toy_object_select_set ob s =
     upd (\<lambda>b. b\<lparr>t_selected := (if s then t_selected b @ [ob]
                                  else filter (\<lambda>x. x \<noteq> ob) (t_selected b))\<rparr>)"

definition toy_object_set_location :: "obj \<Rightarrow> real list \<Rightarrow> (toy, unit) hostM" where
  "toy_object_set_location ob l =
     upd (\<lambda>b. b\<lparr>t_location := t_location b @ [(ob, l)]\<rparr>)"

definition toy_object_set_rotation_euler :: "obj \<Rightarrow> angle list \<Rightarrow> (toy, unit) hostM" where
  "toy_object_set_rotation_euler ob r =
     upd (\<lambda>b. b\<lparr>t_rotation := t_rotation b @ [(ob, r)]\<rparr>)"

definition toy_id_users :: "ident \<Rightarrow> (toy, nat) readM" where
  "toy_id_users d w =
     (case map_of (t_meshes (blend w) @ t_materials (blend w) @ t_images (blend w)) d of
        None \<Rightarrow> Inl ReferenceError
      | Some n \<Rightarrow> Inr n)"

definition toy_nodes_new :: "ntree \<Rightarrow> string \<Rightarrow> (toy, node) hostM" where
  "toy_nodes_new tree ty =
     fresh (\<lambda>i b. b\<lparr>t_nodes := t_nodes b @ [(i, ty)]\<rparr>)"

definition toy_nodes_list :: "ntree \<Rightarrow> (toy, node list) readM" where
  "toy_nodes_list tree = rd (\<lambda>b. map fst (t_nodes b))"

definition toy_nodes_remove :: "ntree \<Rightarrow> node \<Rightarrow> (toy, unit) hostM" where
  "toy_nodes_remove tree n =
     upd (\<lambda>b. b\<lparr>t_nodes := filter (\<lambda>r. fst r \<noteq> n) (t_nodes b)\<rparr>)"

definition toy_links_new :: "ntree \<Rightarrow> socket \<Rightarrow> socket \<Rightarrow> (toy, unit) hostM" where
  "toy_links_new tree a b' =
     upd (\<lambda>b. b\<lparr>t_links := t_links b @ [(a, b')]\<rparr>)"

definition toy_node_set_image :: "node \<Rightarrow> ident \<Rightarrow> (toy, unit) hostM" where
  "toy_node_set_image n i =
     upd (\<lambda>b. b\<lparr>t_node_image := t_node_image b @ [(n, i)]\<rparr>)"

definition toy_node_set_base_path :: "node \<Rightarrow> string \<Rightarrow> (toy, unit) hostM" where
  "toy_node_set_base_path n p = upd (\<lambda>b. b\<lparr>t_base_path := p\<rparr>)"

definition toy_node_file_slots :: "node \<Rightarrow> (toy, fslot list) readM" where
  "toy_node_file_slots n = rd (\<lambda>b. [n])"

definition toy_slot_set_path :: "fslot \<Rightarrow> string \<Rightarrow> (toy, unit) hostM" where
  "toy_slot_set_path sl p = upd (\<lambda>b. b\<lparr>t_slot_path := p\<rparr>)"

definition toy_node_set_file_format :: "node \<Rightarrow> string \<Rightarrow> (toy, unit) hostM" where
  "toy_node_set_file_format n f = upd (\<lambda>b. b\<lparr>t_file_format := f\<rparr>)"

definition toy_node_set_color_mode :: "node \<Rightarrow> string \<Rightarrow> (toy, unit) hostM" where
  "toy_node_set_color_mode n m = upd (\<lambda>b. b\<lparr>t_color_mode := m\<rparr>)"

definition toy_host :: "toy host" where
  "toy_host =
     \<lparr>subprocess_run = toy_subprocess_run,
      data_collections = toy_data_collections,
      data_collections_getitem = toy_data_collections_getitem,
      data_collections_new = toy_data_collections_new,
      data_cameras_new = toy_data_cameras_new,
      data_objects_new = toy_data_objects_new,
      data_objects_remove = toy_objects_remove,
      data_meshes_remove = toy_data_meshes_remove,
      data_materials = toy_data_materials,
      data_materials_remove = toy_data_materials_remove,
      data_images = toy_data_images,
      data_images_remove = toy_data_images_remove,
      data_images_load = toy_data_images_load,
      scene_camera = toy_scene_camera,
      scene_set_camera = toy_scene_set_camera,
      scene_collection_children_link = toy_scene_collection_children_link,
      scene_frame_set = toy_scene_frame_set,
      scene_set_use_nodes = toy_scene_set_use_nodes,
      scene_node_tree = toy_scene_node_tree,
      scene_objects = toy_scene_objects,
      active_layer_collection = toy_active_layer_collection,
      view_layer_set_active = toy_view_layer_set_active,
      ops_object_select_all = toy_ops_object_select_all,
      ops_object_join = toy_join,
      ops_render_render = toy_render,
      collection_name = toy_collection_name,
      collection_objects = toy_collection_objects,
      collection_objects_link = toy_collection_objects_link,
      object_name = toy_object_name,
      object_type = toy_object_type,
      object_data = toy_object_data,
      object_parent = toy_object_parent,
      object_children = toy_object_children,
      object_select_set = toy_object_select_set,
      object_set_location = toy_object_set_location,
      object_set_rotation_euler = toy_object_set_rotation_euler,
      id_users = toy_id_users,
      nodes_new = toy_nodes_new,
      nodes_list = toy_nodes_list,
      nodes_remove = toy_nodes_remove,
      node_outputs_getitem = toy_socket,
      node_inputs_getitem = toy_socket,
      links_new = toy_links_new,
      node_set_image = toy_node_set_image,
      node_set_base_path = toy_node_set_base_path,
      node_file_slots = toy_node_file_slots,
      slot_set_path = toy_slot_set_path,
      node_set_file_format = toy_node_set_file_format,
      node_set_color_mode = toy_node_set_color_mode\<rparr>"

text \<open>An empty scene with one collection, which is the active one, and no files.\<close>

definition empty_scene :: toy where
  "empty_scene =
     \<lparr>t_launched = [], t_objects = [], t_selected = [], t_active = None,
      t_collections = [(0, ''Collection'', [])], t_active_collection = 0,
      t_scene_children = [0], t_cameras = [], t_meshes = [], t_materials = [],
      t_images = [], t_camera = None, t_frame = 1, t_renders = [], t_next = 1,
      t_use_nodes = False, t_nodes = [], t_links = [], t_node_image = [],
      t_base_path = [], t_slot_path = ''Image'', t_file_format = ''PNG'',
      t_color_mode = ''RGBA'', t_location = [], t_rotation = []\<rparr>"

definition on_disk :: "(string \<times> string) list \<Rightarrow> toy \<Rightarrow> toy world" where
  "on_disk fs b = \<lparr>files = map_of fs, blend = b\<rparr>"

text \<open>A stand-in for the \<open>FilePath\<close> constructor: split at the last slash and the last dot.\<close>

definition toy_FilePath :: "string \<Rightarrow> bool \<Rightarrow> FilePath" where
  "toy_FilePath p has_name =
     (if has_name
      then (let base = rev (takeWhile (\<lambda>c. c \<noteq> CHR ''/'') (rev p));
                dir = rev (drop 1 (dropWhile (\<lambda>c. c \<noteq> CHR ''/'') (rev p)))
            in \<lparr>directory = dir,
                fileName = rev (drop 1 (dropWhile (\<lambda>c. c \<noteq> CHR ''.'') (rev base))),
                fileExt = rev (takeWhile (\<lambda>c. c \<noteq> CHR ''.'') (rev base))\<rparr>)
      else \<lparr>directory = p, fileName = [], fileExt = []\<rparr>)"

section \<open>Example inputs\<close>

definition tex_A :: FilePath where
  "tex_A = \<lparr>directory = ''/tmp'', fileName = ''tex_A'', fileExt = ''tga''\<rparr>"

text \<open>
  Two hierarchies: the empty \<open>A\<close> with a mesh child, and the mesh \<open>B\<close> with a mesh child.
\<close>

definition family_scene :: toy where
  "family_scene = empty_scene
     \<lparr>t_objects := [(1, ''A'', ''EMPTY'', 0, None), (2, ''A_mesh'', ''MESH'', 10, Some 1),
                    (3, ''B'', ''MESH'', 11, None), (4, ''B_mesh'', ''MESH'', 12, Some 3)],
      t_collections := [(0, ''Collection'', [1, 2, 3, 4])],
      t_meshes := [(10, 1), (11, 1), (12, 1)],
      t_next := 20\<rparr>"

text \<open>A camera object in the active collection that is not the scene's camera.\<close>

definition camera_scene :: toy where
  "camera_scene = empty_scene
     \<lparr>t_objects := [(1, ''Camera'', ''CAMERA'', 2, None)],
      t_collections := [(0, ''Collection'', [1])],
      t_cameras := [(2, ''Camera'')],
      t_next := 3\<rparr>"

text \<open>
  A collection \<open>Assets\<close> with two meshes and a light; one mesh is shared with an object
  outside the collection; one material and one image have no user.
\<close>

definition assets_scene :: toy where
  "assets_scene = empty_scene
     \<lparr>t_objects := [(1, ''Crate'', ''MESH'', 10, None), (2, ''Lamp'', ''LIGHT'', 11, None),
                    (3, ''Barrel'', ''MESH'', 12, None), (4, ''Keep'', ''MESH'', 12, None)],
      t_collections := [(0, ''Collection'', [4]), (5, ''Assets'', [1, 2, 3])],
      t_meshes := [(10, 1), (12, 2)],
      t_materials := [(13, 0), (14, 1)],
      t_images := [(15, 0)],
      t_next := 20\<rparr>"

text \<open>Materials: without a shader node, with a shader whose normal input is wired.\<close>

definition plain_material :: material where
  "plain_material = Material (Some [ShaderNode ''Image Texture'' []])"

definition shaded_material :: "shader_node list \<Rightarrow> material" where
  "shaded_material normal_links =
     Material (Some [ShaderNode ''Principled BSDF''
                       [(''Base Color'', []), (''Normal'', normal_links)]])"

text \<open>A material whose base colour is wired to an image texture.\<close>

definition textured_material :: material where
  "textured_material =
     Material (Some [ShaderNode ''Principled BSDF''
                       [(''Base Color'', [ShaderNode ''Image Texture'' []]), (''Normal'', [])]])"

section \<open>Auxiliary notions\<close>

text \<open>Every normal return of a command carries the value \<open>v\<close>.\<close>

definition returns_only :: "('b, 'a) hostM \<Rightarrow> 'a \<Rightarrow> bool" where
  "returns_only m v = (\<forall>w r w'. m w = (Inr r, w') \<longrightarrow> r = v)"

section \<open>Sequencing lemmas\<close>

lemma bindM_Inr: "m w = (Inr x, w1) \<Longrightarrow> bindM m f w = f x w1"
  by (simp add: bindM_def)

lemma bindM_Inl: "m w = (Inl e, w1) \<Longrightarrow> bindM m f w = (Inl e, w1)"
  by (simp add: bindM_def)

lemma thenM_Inr: "m w = (Inr x, w1) \<Longrightarrow> thenM m n w = n w1"
  by (simp add: thenM_def bindM_def)

lemma thenM_Inl: "m w = (Inl e, w1) \<Longrightarrow> thenM m n w = (Inl e, w1)"
  by (simp add: thenM_def bindM_def)

lemma bindM_getM: "bindM (getM r) f w = (case r w of Inl e \<Rightarrow> (Inl e, w) | Inr x \<Rightarrow> f x w)"
  by (simp add: bindM_def getM_def split: sum.splits)

lemma bindM_returnM: "bindM (returnM x) f w = f x w"
  by (simp add: bindM_def returnM_def)

lemma thenM_returnM: "thenM (returnM x) n w = n w"
  by (simp add: thenM_def bindM_def returnM_def)

text \<open>The calls of the reference host.\<close>

lemma toy_host_sel:
  "subprocess_run toy_host = toy_subprocess_run"
  "data_collections toy_host = toy_data_collections"
  "data_collections_getitem toy_host = toy_data_collections_getitem"
  "data_collections_new toy_host = toy_data_collections_new"
  "data_cameras_new toy_host = toy_data_cameras_new"
  "data_objects_new toy_host = toy_data_objects_new"
  "data_objects_remove toy_host = toy_objects_remove"
  "data_meshes_remove toy_host = toy_data_meshes_remove"
  "data_materials toy_host = toy_data_materials"
  "data_materials_remove toy_host = toy_data_materials_remove"
  "data_images toy_host = toy_data_images"
  "data_images_remove toy_host = toy_data_images_remove"
  "data_images_load toy_host = toy_data_images_load"
  "scene_camera toy_host = toy_scene_camera"
  "scene_set_camera toy_host = toy_scene_set_camera"
  "scene_collection_children_link toy_host = toy_scene_collection_children_link"
  "scene_frame_set toy_host = toy_scene_frame_set"
  "scene_set_use_nodes toy_host = toy_scene_set_use_nodes"
  "scene_node_tree toy_host = toy_scene_node_tree"
  "scene_objects toy_host = toy_scene_objects"
  "active_layer_collection toy_host = toy_active_layer_collection"
  "view_layer_set_active toy_host = toy_view_layer_set_active"
  "ops_object_select_all toy_host = toy_ops_object_select_all"
  "ops_object_join toy_host = toy_join"
  "ops_render_render toy_host = toy_render"
  "collection_name toy_host = toy_collection_name"
  "collection_objects toy_host = toy_collection_objects"
  "collection_objects_link toy_host = toy_collection_objects_link"
  "object_name toy_host = toy_object_name"
  "object_type toy_host = toy_object_type"
  "object_data toy_host = toy_object_data"
  "object_parent toy_host = toy_object_parent"
  "object_children toy_host = toy_object_children"
  "object_select_set toy_host = toy_object_select_set"
  "object_set_location toy_host = toy_object_set_location"
  "object_set_rotation_euler toy_host = toy_object_set_rotation_euler"
  "id_users toy_host = toy_id_users"
  "nodes_new toy_host = toy_nodes_new"
  "nodes_list toy_host = toy_nodes_list"
  "nodes_remove toy_host = toy_nodes_remove"
  "node_outputs_getitem toy_host = toy_socket"
  "node_inputs_getitem toy_host = toy_socket"
  "links_new toy_host = toy_links_new"
  "node_set_image toy_host = toy_node_set_image"
  "node_set_base_path toy_host = toy_node_set_base_path"
  "node_file_slots toy_host = toy_node_file_slots"
  "slot_set_path toy_host = toy_slot_set_path"
  "node_set_file_format toy_host = toy_node_set_file_format"
  "node_set_color_mode toy_host = toy_node_set_color_mode"
  by (simp_all add: toy_host_def)

lemmas monad_defs = bindM_def thenM_def getM_def returnM_def raiseM_def

lemmas toy_defs = toy_host_sel upd_def rd_def fresh_def obj_lookup_def coll_lookup_def
  release_def drop_object_def toy_objects_remove_def toy_join_def toy_render_def toy_socket_def
  remove_id_def on_disk_def empty_scene_def

lemmas toy_calls = toy_subprocess_run_def toy_data_collections_def toy_data_collections_getitem_def
  toy_data_collections_new_def toy_data_cameras_new_def toy_data_objects_new_def
  toy_data_meshes_remove_def toy_data_materials_def toy_data_materials_remove_def
  toy_data_images_def toy_data_images_remove_def toy_data_images_load_def toy_scene_camera_def
  toy_scene_set_camera_def toy_scene_collection_children_link_def toy_scene_frame_set_def
  toy_scene_set_use_nodes_def toy_scene_node_tree_def toy_scene_objects_def
  toy_active_layer_collection_def toy_view_layer_set_active_def toy_ops_object_select_all_def
  toy_collection_name_def toy_collection_objects_def toy_collection_objects_link_def
  toy_object_name_def toy_object_type_def toy_object_data_def toy_object_parent_def
  toy_object_children_def toy_object_select_set_def toy_object_set_location_def
  toy_object_set_rotation_euler_def toy_id_users_def toy_nodes_new_def toy_nodes_list_def
  toy_nodes_remove_def toy_links_new_def toy_node_set_image_def toy_node_set_base_path_def
  toy_node_file_slots_def toy_slot_set_path_def toy_node_set_file_format_def
  toy_node_set_color_mode_def

lemma pad4_0: "pad4 0 = ''0000''"
  by code_simp

section \<open>BatchUtilities: the command line\<close>


section \<open>CompositorUtilities: the frame suffix\<close>

lemma tmpOutput_neq: "tmpOutput fp \<noteq> getFullPath fp"
  by (simp add: tmpOutput_def getFullPath_def getFullPath_path_only_def)

text \<open>Whatever is at the destination is gone when the rename runs.\<close>

lemma remove_then_rename:
  "removeBlenderFrameSuffix fp frame w =
     os_rename (tmpOutput fp) (getFullPath fp) (w\<lparr>files := (files w)(getFullPath fp := None)\<rparr>)"
proof (cases "files w (getFullPath fp)")
  case None
  then have "(files w)(getFullPath fp := None) = files w"
    by (simp add: fun_upd_idem_iff)
  with None show ?thesis
    by (simp add: removeBlenderFrameSuffix_def thenM_def bindM_def getM_def FilePath_exists_def
        os_path_exists_def returnM_def)
next
  case (Some c)
  then show ?thesis
    by (simp add: removeBlenderFrameSuffix_def thenM_def bindM_def getM_def FilePath_exists_def
        os_path_exists_def removeFile_def os_remove_def)
qed

lemma rename_of_rendered:
  assumes "files w (directory fp @ ''/'' @ fileName fp @ ''0000'' @ ''.'' @ fileExt fp) = Some c"
  shows "removeBlenderFrameSuffix fp frame w =
     (Inr (), w\<lparr>files := (files w)
        (directory fp @ ''/'' @ fileName fp @ ''0000'' @ ''.'' @ fileExt fp := None,
         directory fp @ ''/'' @ fileName fp @ ''.'' @ fileExt fp \<mapsto> c)\<rparr>)"
  using assms tmpOutput_neq[of fp] unfolding remove_then_rename
  by (simp add: os_rename_def tmpOutput_def getFullPath_def getFullPath_path_only_def
      fun_upd_twist)

lemma other_suffix_untouched:
  assumes "sfx \<noteq> ''0000''" "sfx \<noteq> []"
  shows "files (snd (removeBlenderFrameSuffix fp frame w))
           (directory fp @ ''/'' @ fileName fp @ sfx @ ''.'' @ fileExt fp)
         = files w (directory fp @ ''/'' @ fileName fp @ sfx @ ''.'' @ fileExt fp)"
  using assms unfolding remove_then_rename
  by (auto simp add: os_rename_def tmpOutput_def getFullPath_def getFullPath_path_only_def
      split: option.splits)

text \<open>
  C4. For a file path with directory \<open>d\<close>, name \<open>n\<close> and extension \<open>e\<close>, when the rendered
  file \<open>d/n0000.e\<close> is on disk with content \<open>c\<close>, \<open>removeBlenderFrameSuffix\<close> returns
  normally and leaves the disk with no file at \<open>d/n0000.e\<close> and with \<open>c\<close> at the full
  destination path \<open>d/n.e\<close>, whatever was at the destination before: the destination is
  cleared first, and the rename then runs on the disk without it.
\<close>

theorem removeBlenderFrameSuffix_renames:
  assumes "files w (directory fp @ ''/'' @ fileName fp @ ''0000'' @ ''.'' @ fileExt fp) = Some c"
  shows "removeBlenderFrameSuffix fp frame w =
           (Inr (), w\<lparr>files := (files w)
              (directory fp @ ''/'' @ fileName fp @ ''0000'' @ ''.'' @ fileExt fp := None,
               directory fp @ ''/'' @ fileName fp @ ''.'' @ fileExt fp \<mapsto> c)\<rparr>)
         \<and> getFullPath fp = directory fp @ ''/'' @ fileName fp @ ''.'' @ fileExt fp
         \<and> removeBlenderFrameSuffix fp frame w =
             os_rename (directory fp @ ''/'' @ fileName fp @ ''0000'' @ ''.'' @ fileExt fp)
               (getFullPath fp) (w\<lparr>files := (files w)(getFullPath fp := None)\<rparr>)"
  using rename_of_rendered[OF assms] remove_then_rename[of fp frame w]
  by (simp add: getFullPath_def tmpOutput_def getFullPath_path_only_def)

theorem removeBlenderFrameSuffix_renames_witness:
  "files (on_disk [(''/tmp/tex_A0000.tga'', ''new''), (''/tmp/tex_A.tga'', ''old'')] empty_scene)
     ''/tmp/tex_A0000.tga'' = Some ''new''
   \<and> fst (removeBlenderFrameSuffix tex_A 0
        (on_disk [(''/tmp/tex_A0000.tga'', ''new''), (''/tmp/tex_A.tga'', ''old'')] empty_scene))
       = Inr ()
   \<and> files (snd (removeBlenderFrameSuffix tex_A 0
        (on_disk [(''/tmp/tex_A0000.tga'', ''new''), (''/tmp/tex_A.tga'', ''old'')] empty_scene)))
        ''/tmp/tex_A.tga'' = Some ''new''
   \<and> files (snd (removeBlenderFrameSuffix tex_A 0
        (on_disk [(''/tmp/tex_A0000.tga'', ''new''), (''/tmp/tex_A.tga'', ''old'')] empty_scene)))
        ''/tmp/tex_A0000.tga'' = None"
  using removeBlenderFrameSuffix_renames
    [of "on_disk [(''/tmp/tex_A0000.tga'', ''new''), (''/tmp/tex_A.tga'', ''old'')] empty_scene"
      tex_A "''new''" 0]
  by (simp add: on_disk_def tex_A_def)

text \<open>
  C9. \<open>removeBlenderFrameSuffix\<close> does not depend on its \<open>frame\<close> argument: for every frame
  the file it renames is the one with the literal suffix \<open>0000\<close>. A rendered file that
  carries any other suffix (the suffix of a frame other than zero) is left where it is,
  whether the call returns or raises.
\<close>

theorem removeBlenderFrameSuffix_ignores_frame:
  "removeBlenderFrameSuffix fp frame w = removeBlenderFrameSuffix fp frame' w
   \<and> removeBlenderFrameSuffix fp frame w =
       os_rename (directory fp @ ''/'' @ fileName fp @ ''0000'' @ ''.'' @ fileExt fp)
         (getFullPath fp) (w\<lparr>files := (files w)(getFullPath fp := None)\<rparr>)
   \<and> (sfx \<noteq> ''0000'' \<longrightarrow> sfx \<noteq> [] \<longrightarrow>
        files (snd (removeBlenderFrameSuffix fp frame w))
          (directory fp @ ''/'' @ fileName fp @ sfx @ ''.'' @ fileExt fp)
        = files w (directory fp @ ''/'' @ fileName fp @ sfx @ ''.'' @ fileExt fp))"
  using other_suffix_untouched[of sfx fp frame w] remove_then_rename[of fp frame w]
  by (simp add: removeBlenderFrameSuffix_def tmpOutput_def getFullPath_path_only_def)

theorem removeBlenderFrameSuffix_ignores_frame_witness:
  "''0005'' \<noteq> ''0000'' \<and> ''0005'' \<noteq> []
   \<and> removeBlenderFrameSuffix tex_A 5 (on_disk [(''/tmp/tex_A0005.tga'', ''new'')] empty_scene)
       = (Inl FileNotFoundError, on_disk [(''/tmp/tex_A0005.tga'', ''new'')] empty_scene)
   \<and> files (snd (removeBlenderFrameSuffix tex_A 5
         (on_disk [(''/tmp/tex_A0005.tga'', ''new'')] empty_scene))) ''/tmp/tex_A0005.tga''
       = Some ''new''"
  using removeBlenderFrameSuffix_ignores_frame
    [of tex_A 5 "on_disk [(''/tmp/tex_A0005.tga'', ''new'')] empty_scene" 0 "''0005''"]
  by (simp add: on_disk_def tex_A_def os_rename_def getFullPath_def removeBlenderFrameSuffix_def
      thenM_def bindM_def getM_def FilePath_exists_def os_path_exists_def returnM_def
      tmpOutput_def getFullPath_path_only_def)

section \<open>SceneUtilities: joining hierarchies\<close>

text \<open>
  C2. In \<open>joinObjects\<close> with \<open>cleanup_empties=True\<close>, when the selection and the join have
  run and the removal of \<open>secondary_parent\<close> raises \<open>ReferenceError\<close>, the error is swallowed
  and \<open>joinObjects\<close> returns normally, in the world the removal left. An exception of any
  other type raised by the removal reaches the caller, and so does any exception,
  \<open>ReferenceError\<close> included, raised before the removal: the handler covers the removal
  only.
\<close>

theorem joinObjects_swallows_ReferenceError:
  "(join_selected depth api active_parent secondary_parent w = (Inr (), w1)
      \<and> data_objects_remove api secondary_parent w1 = (Inl ReferenceError, w2)
     \<longrightarrow> joinObjects depth api active_parent secondary_parent True w = (Inr (), w2))
   \<and> (join_selected depth api active_parent secondary_parent w = (Inr (), w1)
      \<and> data_objects_remove api secondary_parent w1 = (Inl e, w2) \<and> e \<noteq> ReferenceError
     \<longrightarrow> joinObjects depth api active_parent secondary_parent True w = (Inl e, w2))
   \<and> (join_selected depth api active_parent secondary_parent w = (Inl e, w1)
     \<longrightarrow> joinObjects depth api active_parent secondary_parent cleanup_empties w = (Inl e, w1))"
  by (cases e) (auto simp add: joinObjects_def thenM_def bindM_def except_ReferenceError_def)

theorem joinObjects_swallows_ReferenceError_witness:
  "join_selected 5 toy_host 1 3 (on_disk [] family_scene)
     = (Inr (), snd (join_selected 5 toy_host 1 3 (on_disk [] family_scene)))
   \<and> data_objects_remove toy_host 3 (snd (join_selected 5 toy_host 1 3 (on_disk [] family_scene)))
     = (Inl ReferenceError, snd (join_selected 5 toy_host 1 3 (on_disk [] family_scene)))
   \<and> joinObjects 5 toy_host 1 3 True (on_disk [] family_scene)
     = (Inr (), snd (join_selected 5 toy_host 1 3 (on_disk [] family_scene)))
   \<and> joinObjects 5 (toy_host\<lparr>data_objects_remove := \<lambda>ob. raiseM TypeError\<rparr>) 1 3 True
        (on_disk [] family_scene)
     = (Inl TypeError, snd (join_selected 5 toy_host 1 3 (on_disk [] family_scene)))
   \<and> joinObjects 0 toy_host 1 3 True (on_disk [] family_scene)
     = (Inl RecursionError, on_disk [] family_scene)"
  using
    joinObjects_swallows_ReferenceError [where depth = 5 and api = toy_host and active_parent = 1 and secondary_parent = 3
      and w = "on_disk [] family_scene"
      and ?w1.0 = "snd (join_selected 5 toy_host 1 3 (on_disk [] family_scene))"
      and ?w2.0 = "snd (join_selected 5 toy_host 1 3 (on_disk [] family_scene))"
      and e = TypeError and cleanup_empties = True]
    joinObjects_swallows_ReferenceError [where depth = 5 and api = "toy_host\<lparr>data_objects_remove := \<lambda>ob. raiseM TypeError\<rparr>"
      and active_parent = 1 and secondary_parent = 3
      and w = "on_disk [] family_scene"
      and ?w1.0 = "snd (join_selected 5 toy_host 1 3 (on_disk [] family_scene))"
      and ?w2.0 = "snd (join_selected 5 toy_host 1 3 (on_disk [] family_scene))"
      and e = TypeError and cleanup_empties = True]
    joinObjects_swallows_ReferenceError [where depth = 0 and api = toy_host and active_parent = 1 and secondary_parent = 3
      and w = "on_disk [] family_scene"
      and ?w1.0 = "on_disk [] family_scene"
      and e = RecursionError and cleanup_empties = True]
  by (simp add: joinObjects_def except_ReferenceError_def join_selected_def family_scene_def
      monad_defs toy_defs toy_calls eval_nat_numeral)

section \<open>SceneUtilities: an existing camera\<close>

lemma camera_exists_True:
  assumes "\<exists>ob\<in>set objs. object_type api ob w = Inr ''CAMERA''"
    and "\<forall>ob\<in>set objs. \<exists>t. object_type api ob w = Inr t"
  shows "camera_exists api objs w = Inr True"
  using assms by (induction objs) fastforce+

lemma filterR_nonempty:
  assumes "filterR t xs w = Inr ys" and "x \<in> set xs" and "t x w = Inr True"
  shows "ys \<noteq> []"
  using assms
  by (induction xs arbitrary: ys) (auto split: sum.splits if_splits)

lemma camCollection_of_active:
  assumes "\<not> truthy collection" and "camCollection_of api collection w = (Inr c, w1)"
  shows "w1 = w"
  using assms by (auto simp add: camCollection_of_def getM_def)

lemma camCollection_of_existing:
  assumes "camCollection_of api collection w = (Inr c, w1)"
    and "data_collections api w = Inr all"
    and "x \<in> set all" and "collection_name api x w = Inr (the collection)"
  shows "w1 = w"
proof (cases "truthy collection")
  case False
  then show ?thesis using assms(1) by (rule camCollection_of_active)
next
  case True
  let ?t = "\<lambda>x w. case collection_name api x w of Inl e \<Rightarrow> Inl e | Inr n \<Rightarrow> Inr (the collection = n)"
  from assms(1) True assms(2) obtain cs where cs: "filterR ?t all w = Inr cs"
    by (cases "filterR ?t all w") (auto simp add: camCollection_of_def bindM_getM)
  have "?t x w = Inr True" using assms(4) by simp
  with cs assms(3) have "cs \<noteq> []" by (rule filterR_nonempty)
  then obtain c' rest where "cs = c' # rest" by (cases cs) auto
  with assms(1) True assms(2) cs show ?thesis
    by (auto simp add: camCollection_of_def bindM_getM returnM_def)
qed

lemma createCamera_early:
  assumes "camCollection_of api collection w = (Inr c, w1)"
    and "collection_objects api c w1 = Inr objects"
    and "camera_exists api objects w1 = Inr True"
  shows "createCamera api name collection location rotation False set_as_active w = (Inr None, w1)"
  using assms
  by (simp add: createCamera_def bindM_Inr bindM_getM returnM_def)

text \<open>
  C5. With \<open>create_if_camera_exists=False\<close>, when the target collection holds an object
  of type \<open>CAMERA\<close>, \<open>createCamera\<close> returns \<open>None\<close> in the world in which the target
  collection was found. When no collection is named, or the named collection exists,
  that world is the world of the call: no camera data block and no object is created
  and the scene's camera is what it was. The check reads the type of the objects of the
  collection, one by one.
\<close>

theorem createCamera_existing_camera:
  assumes "camCollection_of api collection w = (Inr c, w1)"
    and "collection_objects api c w1 = Inr objects"
    and "\<forall>ob\<in>set objects. \<exists>t. object_type api ob w1 = Inr t"
    and "\<exists>ob\<in>set objects. object_type api ob w1 = Inr ''CAMERA''"
  shows "createCamera api name collection location rotation False set_as_active w = (Inr None, w1)
       \<and> (\<not> truthy collection \<longrightarrow> w1 = w)
       \<and> (\<forall>all. data_collections api w = Inr all
             \<longrightarrow> (\<exists>x\<in>set all. collection_name api x w = Inr (the collection))
             \<longrightarrow> w1 = w)"
proof -
  have "camera_exists api objects w1 = Inr True"
    using assms(4,3) by (rule camera_exists_True)
  with assms(1,2)
  have "createCamera api name collection location rotation False set_as_active w = (Inr None, w1)"
    by (rule createCamera_early)
  moreover have "\<not> truthy collection \<longrightarrow> w1 = w"
    using assms(1) by (auto dest: camCollection_of_active)
  moreover have "\<forall>all. data_collections api w = Inr all
             \<longrightarrow> (\<exists>x\<in>set all. collection_name api x w = Inr (the collection))
             \<longrightarrow> w1 = w"
    using assms(1) by (auto dest: camCollection_of_existing)
  ultimately show ?thesis by blast
qed

theorem createCamera_existing_camera_witness:
  "camCollection_of toy_host None (on_disk [] camera_scene) = (Inr 0, on_disk [] camera_scene)
   \<and> collection_objects toy_host 0 (on_disk [] camera_scene) = Inr [1]
   \<and> object_type toy_host 1 (on_disk [] camera_scene) = Inr ''CAMERA''
   \<and> createCamera toy_host ''RenderCam'' None [0, 0, 0] [0, 0, 0] False True
        (on_disk [] camera_scene) = (Inr None, on_disk [] camera_scene)
   \<and> createCamera toy_host ''RenderCam'' (Some ''Collection'') [0, 0, 0] [0, 0, 0] False True
        (on_disk [] camera_scene) = (Inr None, on_disk [] camera_scene)"
  using createCamera_existing_camera [of toy_host None "on_disk [] camera_scene" 0 "on_disk [] camera_scene" "[1]"
      "''RenderCam''" "[0, 0, 0]" "[0, 0, 0]" True]
    createCamera_existing_camera [of toy_host "Some ''Collection''" "on_disk [] camera_scene" 0 "on_disk [] camera_scene"
      "[1]" "''RenderCam''" "[0, 0, 0]" "[0, 0, 0]" True]
  by (simp add: camCollection_of_def camera_scene_def monad_defs toy_defs toy_calls)

section \<open>DataUtilities: purging a collection\<close>

lemma purge_objects_removes:
  assumes "purge_objects api objs ms w = (Inr ms', w')"
  shows "forM objs (data_objects_remove api) w = (Inr (), w')"
  using assms
proof (induction objs arbitrary: ms w)
  case Nil
  then show ?case by (simp add: returnM_def)
next
  case (Cons ob objs)
  from Cons.prems obtain t where t: "object_type api ob w = Inr t"
    by (cases "object_type api ob w") (auto simp add: bindM_getM)
  obtain r w2 where rm: "data_objects_remove api ob w = (r, w2)" by force
  show ?case
  proof (cases "t = ''MESH''")
    case True
    from Cons.prems t True obtain d where d: "object_data api ob w = Inr d"
      by (cases "object_data api ob w") (auto simp add: bindM_def getM_def)
    from Cons.prems t True d rm obtain u where "r = Inr u"
      by (cases r) (auto simp add: bindM_def getM_def returnM_def thenM_def)
    with Cons.prems t True d rm Cons.IH show ?thesis
      by (auto simp add: bindM_def getM_def returnM_def thenM_def)
  next
    case False
    from Cons.prems t False rm obtain u where "r = Inr u"
      by (cases r) (auto simp add: bindM_def getM_def returnM_def thenM_def)
    with Cons.prems t False rm Cons.IH show ?thesis
      by (auto simp add: bindM_def getM_def returnM_def thenM_def)
  qed
qed

lemma purge_objects_meshes:
  assumes "purge_objects api objs ms w = (Inr ms', w')"
  shows "\<forall>d\<in>set ms'. d \<in> set ms \<or>
           (\<exists>ob\<in>set objs. \<exists>w0. object_type api ob w0 = Inr ''MESH'' \<and> object_data api ob w0 = Inr d)"
  using assms
proof (induction objs arbitrary: ms w)
  case Nil
  then show ?case by (simp add: returnM_def)
next
  case (Cons ob objs)
  from Cons.prems obtain t where t: "object_type api ob w = Inr t"
    by (cases "object_type api ob w") (auto simp add: bindM_def getM_def)
  obtain r w2 where rm: "data_objects_remove api ob w = (r, w2)" by force
  show ?case
  proof (cases "t = ''MESH''")
    case True
    from Cons.prems t True obtain d where d: "object_data api ob w = Inr d"
      by (cases "object_data api ob w") (auto simp add: bindM_def getM_def)
    from Cons.prems t True d rm obtain u where u: "r = Inr u"
      by (cases r) (auto simp add: bindM_def getM_def returnM_def thenM_def)
    from Cons.prems t True d rm u
    have "purge_objects api objs (if d \<in> set ms then ms else ms @ [d]) w2 = (Inr ms', w')"
      by (auto simp add: bindM_def getM_def returnM_def thenM_def)
    from Cons.IH[OF this] t True d show ?thesis
      by (auto split: if_splits)
  next
    case False
    from Cons.prems t False rm obtain u where u: "r = Inr u"
      by (cases r) (auto simp add: bindM_def getM_def returnM_def thenM_def)
    from Cons.prems t False rm u
    have "purge_objects api objs ms w2 = (Inr ms', w')"
      by (auto simp add: bindM_def getM_def returnM_def thenM_def)
    from Cons.IH[OF this] show ?thesis by auto
  qed
qed

lemma purge_data_phases:
  assumes "purge_data api meshes rm rmat rimg w1 = (Inr (), w')"
  shows "\<exists>w2 w3.
           (if rm then purge_meshes api meshes w1 = (Inr (), w2) else w2 = w1)
         \<and> (if rmat then purge_materials api w2 = (Inr (), w3) else w3 = w2)
         \<and> (if rimg then purge_images api w3 = (Inr (), w') else w' = w3)"
  using assms unfolding purge_data_def thenM_def bindM_def returnM_def
  by (auto split: prod.splits sum.splits if_splits)

text \<open>
  C8. Whenever \<open>purgeMeshObjectsFromCollection\<close> returns, whatever the three flags,
  \<open>bpy.data.objects.remove\<close> has run on every object of the named collection, in order.
  The meshes collected are data of objects of the collection of type \<open>MESH\<close>. Each flag
  only decides whether the removal of orphans of its kind runs afterwards; with the three
  flags false the world returned is the one the removal of the objects left.
\<close>

theorem purge_removes_objects_whatever_the_flags:
  assumes "purgeMeshObjectsFromCollection api coll_name rm rmat rimg w = (Inr (), w')"
  shows "\<exists>c objects meshes w1 w2 w3.
           data_collections_getitem api coll_name w = Inr c
         \<and> collection_objects api c w = Inr objects
         \<and> forM objects (data_objects_remove api) w = (Inr (), w1)
         \<and> (\<forall>d\<in>set meshes. \<exists>ob\<in>set objects. \<exists>w0.
               object_type api ob w0 = Inr ''MESH'' \<and> object_data api ob w0 = Inr d)
         \<and> (if rm then purge_meshes api meshes w1 = (Inr (), w2) else w2 = w1)
         \<and> (if rmat then purge_materials api w2 = (Inr (), w3) else w3 = w2)
         \<and> (if rimg then purge_images api w3 = (Inr (), w') else w' = w3)"
proof -
  from assms obtain c where c: "data_collections_getitem api coll_name w = Inr c"
    by (cases "data_collections_getitem api coll_name w")
      (auto simp add: purgeMeshObjectsFromCollection_def bindM_def getM_def)
  from assms c obtain objects where o: "collection_objects api c w = Inr objects"
    by (cases "collection_objects api c w")
      (auto simp add: purgeMeshObjectsFromCollection_def bindM_def getM_def)
  obtain r w1 where p: "purge_objects api objects [] w = (r, w1)" by force
  from assms c o p obtain meshes where m: "r = Inr meshes"
    by (cases r) (auto simp add: purgeMeshObjectsFromCollection_def bindM_def getM_def)
  from assms c o p m have d: "purge_data api meshes rm rmat rimg w1 = (Inr (), w')"
    by (auto simp add: purgeMeshObjectsFromCollection_def bindM_def getM_def)
  from p m have f: "forM objects (data_objects_remove api) w = (Inr (), w1)"
    by (auto intro: purge_objects_removes)
  from p m purge_objects_meshes[of api objects "[]" w meshes w1]
  have s: "\<forall>d\<in>set meshes. \<exists>ob\<in>set objects. \<exists>w0.
               object_type api ob w0 = Inr ''MESH'' \<and> object_data api ob w0 = Inr d"
    by auto
  from purge_data_phases[OF d] obtain w2 w3 where
    "(if rm then purge_meshes api meshes w1 = (Inr (), w2) else w2 = w1)
         \<and> (if rmat then purge_materials api w2 = (Inr (), w3) else w3 = w2)
         \<and> (if rimg then purge_images api w3 = (Inr (), w') else w' = w3)" by blast
  with c o f s show ?thesis by blast
qed

theorem purge_removes_objects_whatever_the_flags_witness:
  "fst (purgeMeshObjectsFromCollection toy_host ''Assets'' False False False
          (on_disk [] assets_scene)) = Inr ()
   \<and> blend (snd (purgeMeshObjectsFromCollection toy_host ''Assets'' False False False
          (on_disk [] assets_scene)))
       = assets_scene\<lparr>t_objects := [(4, ''Keep'', ''MESH'', 12, None)],
           t_collections := [(0, ''Collection'', [4]), (5, ''Assets'', [])],
           t_meshes := [(10, 0), (12, 1)]\<rparr>
   \<and> blend (snd (purgeMeshObjectsFromCollection toy_host ''Assets'' True True True
          (on_disk [] assets_scene)))
       = assets_scene\<lparr>t_objects := [(4, ''Keep'', ''MESH'', 12, None)],
           t_collections := [(0, ''Collection'', [4]), (5, ''Assets'', [])],
           t_meshes := [(12, 1)], t_materials := [(14, 1)], t_images := []\<rparr>"
  using purge_removes_objects_whatever_the_flags [of toy_host "''Assets''" False False False "on_disk [] assets_scene"
      "snd (purgeMeshObjectsFromCollection toy_host ''Assets'' False False False
          (on_disk [] assets_scene))"]
  by (simp add: purgeMeshObjectsFromCollection_def purge_data_def purge_meshes_def
      purge_materials_def purge_images_def orphans_def assets_scene_def monad_defs toy_defs
      toy_calls)

section \<open>CompositorUtilities: the destination of the alpha extraction\<close>

lemma returns_only_returnM: "returns_only (returnM v) v"
  by (simp add: returns_only_def returnM_def)

lemma returns_only_bindM: "(\<And>x. returns_only (f x) v) \<Longrightarrow> returns_only (bindM m f) v"
  unfolding returns_only_def bindM_def
  by (auto split: prod.splits sum.splits)

lemma returns_only_thenM: "returns_only n v \<Longrightarrow> returns_only (thenM m n) v"
  unfolding thenM_def by (rule returns_only_bindM)

lemma extract_returns_dstTex:
  "returns_only (extractAlphaToGreyscale api mk src_img dst_img dst_suffix format do_cleanup)
     (dstTex_of mk (mk src_img True) dst_img dst_suffix)"
  unfolding extractAlphaToGreyscale_def Let_def split_def
  by (intro returns_only_bindM returns_only_thenM returns_only_returnM)

text \<open>
  C10. Whenever \<open>extractAlphaToGreyscale\<close> returns, it returns the destination chosen in
  this order. A \<open>dst_img\<close> that is given (not \<open>None\<close>, not empty) is the destination,
  whatever \<open>dst_suffix\<close> is: the file path constructed from it, whose full path is
  \<open>dst_img\<close> when the constructor gives a path its string back. Otherwise, with a
  \<open>dst_suffix\<close> given, the name of the destination is the name of the source joined to
  the suffix by an underscore and its extension is the extension of the source; its
  directory is the directory of the source when the constructor without name keeps the
  directory it is given. Otherwise the destination is built from the full path of the
  source, and is the source path when the constructor gives the source its string back.
\<close>

theorem extractAlphaToGreyscale_destination:
  assumes "extractAlphaToGreyscale api mk src_img dst_img dst_suffix format do_cleanup w = (Inr r, w')"
  shows "(dst_img = Some p \<and> p \<noteq> [] \<longrightarrow> r = mk p True)
       \<and> (dst_img = Some p \<and> p \<noteq> [] \<and> getFullPath (mk p True) = p \<longrightarrow> getFullPath r = p)
       \<and> (\<not> truthy dst_img \<and> dst_suffix = Some s \<and> s \<noteq> [] \<longrightarrow>
            fileName r = fileName (mk src_img True) @ ''_'' @ s
            \<and> fileExt r = fileExt (mk src_img True)
            \<and> directory r = directory (mk (directory (mk src_img True)) False))
       \<and> (\<not> truthy dst_img \<and> dst_suffix = Some s \<and> s \<noteq> []
            \<and> directory (mk (directory (mk src_img True)) False) = directory (mk src_img True)
          \<longrightarrow> directory r = directory (mk src_img True)
            \<and> getFullPath r = directory (mk src_img True) @ ''/'' @ fileName (mk src_img True)
                 @ ''_'' @ s @ ''.'' @ fileExt (mk src_img True))
       \<and> (\<not> truthy dst_img \<and> \<not> truthy dst_suffix \<longrightarrow>
            r = mk (getFullPath (mk src_img True)) True)
       \<and> (\<not> truthy dst_img \<and> \<not> truthy dst_suffix \<and> getFullPath (mk src_img True) = src_img
          \<longrightarrow> r = mk src_img True \<and> getFullPath r = src_img)"
proof -
  from extract_returns_dstTex assms
  have "r = dstTex_of mk (mk src_img True) dst_img dst_suffix"
    unfolding returns_only_def by blast
  then show ?thesis
    by (auto simp add: dstTex_of_def getFullPath_path_only_def getFullPath_def)
qed

theorem extractAlphaToGreyscale_destination_witness:
  "getFullPath (toy_FilePath ''/out/alpha.tga'' True) = ''/out/alpha.tga''
   \<and> getFullPath (toy_FilePath ''/tex/wood_D.tga'' True) = ''/tex/wood_D.tga''
   \<and> directory (toy_FilePath (directory (toy_FilePath ''/tex/wood_D.tga'' True)) False)
       = directory (toy_FilePath ''/tex/wood_D.tga'' True)
   \<and> fst (extractAlphaToGreyscale toy_host toy_FilePath ''/tex/wood_D.tga'' (Some ''/out/alpha.tga'') (Some ''A'')
          ''TARGA'' True (on_disk [(''/tex/wood_D.tga'', ''rgba'')] empty_scene))
     = Inr \<lparr>directory = ''/out'', fileName = ''alpha'', fileExt = ''tga''\<rparr>
   \<and> fst (extractAlphaToGreyscale toy_host toy_FilePath ''/tex/wood_D.tga'' None (Some ''A'')
          ''TARGA'' True (on_disk [(''/tex/wood_D.tga'', ''rgba'')] empty_scene))
     = Inr \<lparr>directory = ''/tex'', fileName = ''wood_D_A'', fileExt = ''tga''\<rparr>
   \<and> fst (extractAlphaToGreyscale toy_host toy_FilePath ''/tex/wood_D.tga'' None None
          ''TARGA'' True (on_disk [(''/tex/wood_D.tga'', ''rgba'')] empty_scene))
     = Inr (toy_FilePath ''/tex/wood_D.tga'' True)"
  using
    extractAlphaToGreyscale_destination [where api = toy_host and mk = toy_FilePath and src_img = "''/tex/wood_D.tga''"
      and dst_img = "Some ''/out/alpha.tga''" and dst_suffix = "Some ''A''" and format = "''TARGA''"
      and do_cleanup = True and w = "on_disk [(''/tex/wood_D.tga'', ''rgba'')] empty_scene"
      and p = "''/out/alpha.tga''" and s = "''A''"
      and r = "\<lparr>directory = ''/out'', fileName = ''alpha'', fileExt = ''tga''\<rparr>"
      and w' = "snd (extractAlphaToGreyscale toy_host toy_FilePath ''/tex/wood_D.tga'' (Some ''/out/alpha.tga'') (Some ''A'')
          ''TARGA'' True (on_disk [(''/tex/wood_D.tga'', ''rgba'')] empty_scene))"]
    extractAlphaToGreyscale_destination [where api = toy_host and mk = toy_FilePath and src_img = "''/tex/wood_D.tga''"
      and dst_img = "None" and dst_suffix = "Some ''A''" and format = "''TARGA''"
      and do_cleanup = True and w = "on_disk [(''/tex/wood_D.tga'', ''rgba'')] empty_scene"
      and p = "''/out/alpha.tga''" and s = "''A''"
      and r = "\<lparr>directory = ''/tex'', fileName = ''wood_D_A'', fileExt = ''tga''\<rparr>"
      and w' = "snd (extractAlphaToGreyscale toy_host toy_FilePath ''/tex/wood_D.tga'' None (Some ''A'')
          ''TARGA'' True (on_disk [(''/tex/wood_D.tga'', ''rgba'')] empty_scene))"]
    extractAlphaToGreyscale_destination [where api = toy_host and mk = toy_FilePath and src_img = "''/tex/wood_D.tga''"
      and dst_img = "None" and dst_suffix = "None" and format = "''TARGA''"
      and do_cleanup = True and w = "on_disk [(''/tex/wood_D.tga'', ''rgba'')] empty_scene"
      and p = "''/out/alpha.tga''" and s = "''A''"
      and r = "\<lparr>directory = ''/tex'', fileName = ''wood_D'', fileExt = ''tga''\<rparr>"
      and w' = "snd (extractAlphaToGreyscale toy_host toy_FilePath ''/tex/wood_D.tga'' None None
          ''TARGA'' True (on_disk [(''/tex/wood_D.tga'', ''rgba'')] empty_scene))"]
  by (simp add: extractAlphaToGreyscale_def initCompositor_def dstTex_of_def toy_FilePath_def
      renderComposition_def ensure_camera_def createCamera_def camCollection_of_def
      removeBlenderFrameSuffix_def FilePath_exists_def removeFile_def os_path_exists_def
      os_remove_def os_rename_def getFullPath_def tmpOutput_def getFullPath_path_only_def
      pad4_0 extension_def monad_defs toy_defs toy_calls Let_def)

section \<open>CompositorUtilities: the camera at render time\<close>

text \<open>
  C6. On the reference host: a scene without a scene camera whose active collection
  holds a camera object. \<open>renderComposition\<close> returns normally and the render operator was
  invoked with no scene camera. Such a scene is what \<open>createCamera\<close> with
  \<open>set_as_active=False\<close> leaves of an empty scene. On the empty scene itself the camera
  \<open>RenderCam\<close> is created and is the scene camera when the render operator is invoked.
\<close>

theorem renderComposition_renders_without_scene_camera:
  "scene_camera toy_host (on_disk [] camera_scene) = Inr None
   \<and> fst (renderComposition toy_host 0 True 0 (on_disk [] camera_scene)) = Inr ()
   \<and> t_renders (blend (snd (renderComposition toy_host 0 True 0 (on_disk [] camera_scene))))
       = [None]
   \<and> t_renders (blend (snd (renderComposition toy_host 0 True 0
         (snd (createCamera toy_host ''Camera'' None [0, 0, 0] [0, 0, 0] False False
            (on_disk [] empty_scene)))))) = [None]
   \<and> t_renders (blend (snd (renderComposition toy_host 0 True 0 (on_disk [] empty_scene))))
       = [Some 2]"
  by (simp add: renderComposition_def ensure_camera_def createCamera_def camCollection_of_def
      camera_scene_def monad_defs toy_defs toy_calls)

section \<open>Errors reach the caller\<close>

text \<open>
  A slot whose input has no link: no upstream node is there, and \<open>getTextureFromSlot\<close>
  returns \<open>None\<close> instead of raising, for the normal slot as for any other.
\<close>

theorem unlinked_slot_returns_None:
  "getTextureFromSlot Name ''Normal'' (shaded_material []) ''Base Color'' = Inr None
   \<and> getTextureFromSlot Name ''Normal'' (shaded_material []) ''Normal'' = Inr None"
  by (simp add: getTextureFromSlot_def shaded_material_def nodes_get_def inputs_getitem_def)

text \<open>
  C3, amended. \<open>getTextureFromSlot\<close> raises what the failed lookup raises:
  \<open>AttributeError\<close> when the node tree has no node named \<open>Principled BSDF\<close>, and the
  error of the lookup when the input of the slot is missing. When the input of the slot
  has no link it returns \<open>None\<close>; when it has one and the slot is not the normal slot it
  returns the linked node. For the normal slot with a linked node it raises the error of
  the lookup when that node has no input \<open>Color\<close>, \<open>IndexError\<close> when that input has no
  link, and returns the node linked there otherwise. \<open>removeBlenderFrameSuffix\<close> raises
  what the rename raises, which is \<open>FileNotFoundError\<close> when the file with the suffix
  \<open>0000\<close> does not exist.
\<close>

theorem errors_reach_the_caller:
  "(node_tree material = Some nodes \<and> nodes_get nodes ''Principled BSDF'' = None
      \<longrightarrow> getTextureFromSlot slot_value Normal material slot = Inl AttributeError)
   \<and> (node_tree material = Some nodes \<and> nodes_get nodes ''Principled BSDF'' = Some shaderGraph
        \<and> inputs_getitem (node_inputs shaderGraph) (slot_value slot) = Inl e
      \<longrightarrow> getTextureFromSlot slot_value Normal material slot = Inl e)
   \<and> (node_tree material = Some nodes \<and> nodes_get nodes ''Principled BSDF'' = Some shaderGraph
        \<and> inputs_getitem (node_inputs shaderGraph) (slot_value slot) = Inr []
      \<longrightarrow> getTextureFromSlot slot_value Normal material slot = Inr None)
   \<and> (node_tree material = Some nodes \<and> nodes_get nodes ''Principled BSDF'' = Some shaderGraph
        \<and> inputs_getitem (node_inputs shaderGraph) (slot_value slot) = Inr (linked # rest)
        \<and> slot \<noteq> Normal
      \<longrightarrow> getTextureFromSlot slot_value Normal material slot = Inr (Some linked))
   \<and> (node_tree material = Some nodes \<and> nodes_get nodes ''Principled BSDF'' = Some shaderGraph
        \<and> inputs_getitem (node_inputs shaderGraph) (slot_value slot) = Inr (normalMap # rest)
        \<and> slot = Normal
        \<and> inputs_getitem (node_inputs normalMap) (Name ''Color'') = Inl e
      \<longrightarrow> getTextureFromSlot slot_value Normal material slot = Inl e)
   \<and> (node_tree material = Some nodes \<and> nodes_get nodes ''Principled BSDF'' = Some shaderGraph
        \<and> inputs_getitem (node_inputs shaderGraph) (slot_value slot) = Inr (normalMap # rest)
        \<and> slot = Normal
        \<and> inputs_getitem (node_inputs normalMap) (Name ''Color'') = Inr []
      \<longrightarrow> getTextureFromSlot slot_value Normal material slot = Inl IndexError)
   \<and> (node_tree material = Some nodes \<and> nodes_get nodes ''Principled BSDF'' = Some shaderGraph
        \<and> inputs_getitem (node_inputs shaderGraph) (slot_value slot) = Inr (normalMap # rest)
        \<and> slot = Normal
        \<and> inputs_getitem (node_inputs normalMap) (Name ''Color'') = Inr (texture # rest')
      \<longrightarrow> getTextureFromSlot slot_value Normal material slot = Inr (Some texture))
   \<and> (os_rename (tmpOutput fp) (getFullPath fp) (w\<lparr>files := (files w)(getFullPath fp := None)\<rparr>)
          = (Inl e', w')
      \<longrightarrow> removeBlenderFrameSuffix fp frame w = (Inl e', w'))
   \<and> (files w (directory fp @ ''/'' @ fileName fp @ ''0000'' @ ''.'' @ fileExt fp) = None
      \<longrightarrow> fst (removeBlenderFrameSuffix fp frame w) = Inl FileNotFoundError)"
  using remove_then_rename[of fp frame w] tmpOutput_neq[of fp]
  by (auto simp add: getTextureFromSlot_def first_from_node_def os_rename_def tmpOutput_def
      getFullPath_path_only_def)

theorem errors_reach_the_caller_witness:
  "nodes_get [ShaderNode ''Image Texture'' []] ''Principled BSDF'' = None
   \<and> getTextureFromSlot Name ''Normal'' plain_material ''Base Color'' = Inl AttributeError
   \<and> getTextureFromSlot Name ''Normal'' (shaded_material []) ''Roughness'' = Inl KeyError
   \<and> getTextureFromSlot Name ''Normal'' (shaded_material []) ''Base Color'' = Inr None
   \<and> getTextureFromSlot Name ''Normal'' (shaded_material []) ''Normal'' = Inr None
   \<and> getTextureFromSlot Name ''Normal'' textured_material ''Base Color''
       = Inr (Some (ShaderNode ''Image Texture'' []))
   \<and> getTextureFromSlot Name ''Normal''
        (shaded_material [ShaderNode ''Normal Map'' [(''Strength'', [])]]) ''Normal''
       = Inl KeyError
   \<and> getTextureFromSlot Name ''Normal''
        (shaded_material [ShaderNode ''Normal Map'' [(''Color'', [])]]) ''Normal''
       = Inl IndexError
   \<and> getTextureFromSlot Name ''Normal''
        (shaded_material
           [ShaderNode ''Normal Map'' [(''Color'', [ShaderNode ''Image Texture'' []])]])
        ''Normal''
       = Inr (Some (ShaderNode ''Image Texture'' []))
   \<and> files (on_disk [(''/tmp/tex_A.tga'', ''old'')] empty_scene) ''/tmp/tex_A0000.tga'' = None
   \<and> removeBlenderFrameSuffix tex_A 0 (on_disk [(''/tmp/tex_A.tga'', ''old'')] empty_scene)
       = (Inl FileNotFoundError, on_disk [] empty_scene)"
  using
    errors_reach_the_caller [where material = "plain_material"
      and nodes = "[ShaderNode ''Image Texture'' []]"
      and shaderGraph = "ShaderNode [] []"
      and slot_value = Name and Normal = "''Normal''" and slot = "''Base Color''" and e = KeyError
      and linked = "ShaderNode [] []" and rest = "[]"
      and normalMap = "ShaderNode [] []"
      and texture = "ShaderNode [] []" and rest' = "[]"
 and fp = tex_A and w = "on_disk [(''/tmp/tex_A.tga'', ''old'')] empty_scene"
      and e' = FileNotFoundError and w' = "on_disk [] empty_scene" and frame = 0]
    errors_reach_the_caller [where material = "shaded_material []"
      and nodes = "[ShaderNode ''Principled BSDF'' [(''Base Color'', []), (''Normal'', [])]]"
      and shaderGraph = "ShaderNode ''Principled BSDF'' [(''Base Color'', []), (''Normal'', [])]"
      and slot_value = Name and Normal = "''Normal''" and slot = "''Roughness''" and e = KeyError
      and linked = "ShaderNode [] []" and rest = "[]"
      and normalMap = "ShaderNode [] []"
      and texture = "ShaderNode [] []" and rest' = "[]"
 and fp = tex_A and w = "on_disk [(''/tmp/tex_A.tga'', ''old'')] empty_scene"
      and e' = FileNotFoundError and w' = "on_disk [] empty_scene" and frame = 0]
    errors_reach_the_caller [where material = "shaded_material []"
      and nodes = "[ShaderNode ''Principled BSDF'' [(''Base Color'', []), (''Normal'', [])]]"
      and shaderGraph = "ShaderNode ''Principled BSDF'' [(''Base Color'', []), (''Normal'', [])]"
      and slot_value = Name and Normal = "''Normal''" and slot = "''Base Color''" and e = KeyError
      and linked = "ShaderNode [] []" and rest = "[]"
      and normalMap = "ShaderNode [] []"
      and texture = "ShaderNode [] []" and rest' = "[]"
 and fp = tex_A and w = "on_disk [(''/tmp/tex_A.tga'', ''old'')] empty_scene"
      and e' = FileNotFoundError and w' = "on_disk [] empty_scene" and frame = 0]
    errors_reach_the_caller [where material = "shaded_material []"
      and nodes = "[ShaderNode ''Principled BSDF'' [(''Base Color'', []), (''Normal'', [])]]"
      and shaderGraph = "ShaderNode ''Principled BSDF'' [(''Base Color'', []), (''Normal'', [])]"
      and slot_value = Name and Normal = "''Normal''" and slot = "''Normal''" and e = KeyError
      and linked = "ShaderNode [] []" and rest = "[]"
      and normalMap = "ShaderNode [] []"
      and texture = "ShaderNode [] []" and rest' = "[]"
 and fp = tex_A and w = "on_disk [(''/tmp/tex_A.tga'', ''old'')] empty_scene"
      and e' = FileNotFoundError and w' = "on_disk [] empty_scene" and frame = 0]
    errors_reach_the_caller [where material = "textured_material"
      and nodes = "[ShaderNode ''Principled BSDF'' [(''Base Color'', [ShaderNode ''Image Texture'' []]), (''Normal'', [])]]"
      and shaderGraph = "ShaderNode ''Principled BSDF'' [(''Base Color'', [ShaderNode ''Image Texture'' []]), (''Normal'', [])]"
      and slot_value = Name and Normal = "''Normal''" and slot = "''Base Color''" and e = KeyError
      and linked = "ShaderNode ''Image Texture'' []" and rest = "[]"
      and normalMap = "ShaderNode [] []"
      and texture = "ShaderNode [] []" and rest' = "[]"
 and fp = tex_A and w = "on_disk [(''/tmp/tex_A.tga'', ''old'')] empty_scene"
      and e' = FileNotFoundError and w' = "on_disk [] empty_scene" and frame = 0]
    errors_reach_the_caller [where material = "shaded_material [ShaderNode ''Normal Map'' [(''Strength'', [])]]"
      and nodes = "[ShaderNode ''Principled BSDF'' [(''Base Color'', []), (''Normal'', [ShaderNode ''Normal Map'' [(''Strength'', [])]])]]"
      and shaderGraph = "ShaderNode ''Principled BSDF'' [(''Base Color'', []), (''Normal'', [ShaderNode ''Normal Map'' [(''Strength'', [])]])]"
      and slot_value = Name and Normal = "''Normal''" and slot = "''Normal''" and e = KeyError
      and linked = "ShaderNode [] []" and rest = "[]"
      and normalMap = "ShaderNode ''Normal Map'' [(''Strength'', [])]"
      and texture = "ShaderNode [] []" and rest' = "[]"
 and fp = tex_A and w = "on_disk [(''/tmp/tex_A.tga'', ''old'')] empty_scene"
      and e' = FileNotFoundError and w' = "on_disk [] empty_scene" and frame = 0]
    errors_reach_the_caller [where material = "shaded_material [ShaderNode ''Normal Map'' [(''Color'', [])]]"
      and nodes = "[ShaderNode ''Principled BSDF'' [(''Base Color'', []), (''Normal'', [ShaderNode ''Normal Map'' [(''Color'', [])]])]]"
      and shaderGraph = "ShaderNode ''Principled BSDF'' [(''Base Color'', []), (''Normal'', [ShaderNode ''Normal Map'' [(''Color'', [])]])]"
      and slot_value = Name and Normal = "''Normal''" and slot = "''Normal''" and e = KeyError
      and linked = "ShaderNode [] []" and rest = "[]"
      and normalMap = "ShaderNode ''Normal Map'' [(''Color'', [])]"
      and texture = "ShaderNode [] []" and rest' = "[]"
 and fp = tex_A and w = "on_disk [(''/tmp/tex_A.tga'', ''old'')] empty_scene"
      and e' = FileNotFoundError and w' = "on_disk [] empty_scene" and frame = 0]
    errors_reach_the_caller [where material = "shaded_material [ShaderNode ''Normal Map'' [(''Color'', [ShaderNode ''Image Texture'' []])]]"
      and nodes = "[ShaderNode ''Principled BSDF'' [(''Base Color'', []), (''Normal'', [ShaderNode ''Normal Map'' [(''Color'', [ShaderNode ''Image Texture'' []])]])]]"
      and shaderGraph = "ShaderNode ''Principled BSDF'' [(''Base Color'', []), (''Normal'', [ShaderNode ''Normal Map'' [(''Color'', [ShaderNode ''Image Texture'' []])]])]"
      and slot_value = Name and Normal = "''Normal''" and slot = "''Normal''" and e = KeyError
      and linked = "ShaderNode [] []" and rest = "[]"
      and normalMap = "ShaderNode ''Normal Map'' [(''Color'', [ShaderNode ''Image Texture'' []])]"
      and texture = "ShaderNode ''Image Texture'' []" and rest' = "[]"
 and fp = tex_A and w = "on_disk [(''/tmp/tex_A.tga'', ''old'')] empty_scene"
      and e' = FileNotFoundError and w' = "on_disk [] empty_scene" and frame = 0]
  by (simp add: plain_material_def shaded_material_def textured_material_def nodes_get_def
      inputs_getitem_def tex_A_def on_disk_def getFullPath_def tmpOutput_def
      getFullPath_path_only_def os_rename_def)

end
